theory Spec2Isabelle
  imports Main "HOL-Library.Word"
begin

section \<open>Data model: points, tag sets, sample batches\<close>

text \<open>
  Go's \<^verbatim>\<open>error\<close> values are kept by their message. A function returning
  \<^verbatim>\<open>(T, error)\<close> is modelled as a pair whose second component is \<open>None\<close> for
  a nil error, or as a sum (\<open>Inl\<close> the error) where the source never reads the value
  beside a non-nil error.
\<close>

datatype error = Err string

text \<open>
  A \<^verbatim>\<open>float64\<close> is kept as the expression that computes it: the conversion of an
  integer, a quotient, a product. IEEE rounding is not evaluated.
\<close>

datatype float64 =
    F64_of_int int
  | F64_div float64 float64
  | F64_mul float64 float64

text \<open>
  \<^verbatim>\<open>Add\<close> takes its value as \<^verbatim>\<open>interface{}\<close>; the collectors under study pass
  an \<^verbatim>\<open>int\<close>, an \<^verbatim>\<open>int64\<close>, a \<^verbatim>\<open>uint64\<close>, a \<^verbatim>\<open>uint32\<close> or a
  \<^verbatim>\<open>float64\<close>. Fixed-width integers are words: \<open>+\<close>, \<open>-\<close>, \<open>*\<close> wrap, \<open>div\<close>
  and \<open><\<close> are unsigned, \<open>sint\<close> and \<open><s\<close> read a word as two's complement.
\<close>

type_synonym int64 = "64 word"
type_synonym uint64 = "64 word"
type_synonym uint32 = "32 word"

datatype val =
    V_int int
  | V_int64 int64
  | V_uint64 uint64
  | V_uint32 uint32
  | V_float64 float64

text \<open>
  \<^verbatim>\<open>opentsdb.TagSet\<close> is a \<^verbatim>\<open>map[string]string\<close>; the model keeps the pairs of a map
  literal in the order they are written. \<^verbatim>\<open>opentsdb.MultiDataPoint\<close> is a slice of
  points; the nil slice is \<open>[]\<close>.
\<close>

type_synonym TagSet = "(string \<times> string) list"

record DataPoint =
  Metric :: string
  Timestamp :: int
  Value :: val
  Tags :: TagSet

type_synonym MultiDataPoint = "DataPoint list"

text \<open>What a collector function returns: \<^verbatim>\<open>(opentsdb.MultiDataPoint, error)\<close>.\<close>

type_synonym collected = "MultiDataPoint \<times> error option"

datatype RateType = Unknown | Gauge | Counter | Rate

datatype Unit = None_unit | Bytes | Pct | MHz | Second | Count

subsection \<open>The point construction helper\<close>

text \<open>
  The process-wide state \<^verbatim>\<open>Add\<close> reads: the host name behind the default \<^verbatim>\<open>host\<close>
  tag, the clock (one reading stands for all the calls of an invocation), and which side
  wins when the caller's tag set and the default tag set share a key (the design leaves
  that policy to the implementation).
\<close>

record env =
  Hostname :: string
  Now :: int
  CallerTagsWin :: bool

definition default_tags :: "env \<Rightarrow> TagSet" where
  "default_tags e = [(''host'', Hostname e)]"

definition merge_tags :: "env \<Rightarrow> TagSet \<Rightarrow> TagSet" where
  "merge_tags e t =
     (if CallerTagsWin e
      then t @ filter (\<lambda>kv. fst kv \<notin> set (map fst t)) (default_tags e)
      else default_tags e @ filter (\<lambda>kv. fst kv \<notin> set (map fst (default_tags e))) t)"

text \<open>
  Modelled from the spec: \<^verbatim>\<open>collectors.Add\<close> is called by every collector and is not
  among the source files. Section 4.1: it merges the caller's tag set with the
  process-wide default tag set (the \<^verbatim>\<open>host\<close> tag), rejects a resulting tag set with
  duplicate keys (the point is skipped, the invocation goes on), stamps the point with
  the current time and appends it to the caller's batch. The rate type, unit and
  description only feed the metadata deduplicator, a separate store that no batch reads.
\<close>

definition Add ::
  "env \<Rightarrow> MultiDataPoint \<Rightarrow> string \<Rightarrow> val \<Rightarrow> TagSet \<Rightarrow> RateType \<Rightarrow> Unit \<Rightarrow> string
     \<Rightarrow> MultiDataPoint" where
  "Add e md name v t rate unit desc =
     (let tags = merge_tags e t in
      if distinct (map fst tags)
      then md @ [\<lparr>Metric = name, Timestamp = Now e, Value = v, Tags = tags\<rparr>]
      else md)"

section \<open>The ICMP collector\<close>

text \<open>
  \<^verbatim>\<open>time.Duration\<close> counts nanoseconds in an \<^verbatim>\<open>int64\<close>.
\<close>

definition time_Millisecond :: int where
  "time_Millisecond = 1000000"

definition time_Second :: int where
  "time_Second = 1000 * time_Millisecond"

record Pinger =
  addrs :: "string list"
  MaxRTT :: int

text \<open>
  The network side of \<^verbatim>\<open>c_icmp\<close>, outside the repository:
  \<^verbatim>\<open>net.ResolveIPAddr("ip4:icmp", host)\<close>, and \<^verbatim>\<open>p.Run()\<close> of the fastping
  library, which calls the \<^verbatim>\<open>receive\<close> handler once per echo reply it accepts (with
  the round-trip time) before it returns its error.
\<close>

record icmp_net =
  ResolveIPAddr :: "string \<Rightarrow> error + string"
  Pinger_Run :: "Pinger \<Rightarrow> int list \<times> error option"

text \<open>
  The handler closure of \<^verbatim>\<open>c_icmp\<close>: it adds a \<^verbatim>\<open>ping.rtt\<close> point to the shared
  \<^verbatim>\<open>md\<close> and clears \<^verbatim>\<open>timeout\<close>.
\<close>

definition icmp_receive ::
  "env \<Rightarrow> string \<Rightarrow> MultiDataPoint \<times> int \<Rightarrow> int \<Rightarrow> MultiDataPoint \<times> int" where
  "icmp_receive e host s t =
     (Add e (fst s) ''ping.rtt''
        (V_float64 (F64_div (F64_of_int t) (F64_of_int time_Millisecond)))
        [(''dst_host'', host)] Unknown None_unit [],
      0)"

definition c_icmp :: "env \<Rightarrow> icmp_net \<Rightarrow> string \<Rightarrow> collected" where
  "c_icmp e w host =
     (case ResolveIPAddr w host of
        Inl err \<Rightarrow> ([], Some err)
      | Inr ra \<Rightarrow>
          (let p = \<lparr>addrs = [ra], MaxRTT = time_Second * 5\<rparr>;
               run = Pinger_Run w p;
               s = foldl (icmp_receive e host) ([], 1) (fst run)
           in case snd run of
                Some err \<Rightarrow> ([], Some err)
              | None \<Rightarrow>
                  (Add e (fst s) ''ping.timeout'' (V_int (snd s))
                     [(''dst_host'', host)] Unknown None_unit [],
                   None)))"

section \<open>The Windows system collector\<close>

text \<open>
  A function that can panic returns \<open>Panics\<close> with the runtime's message, or
  \<open>Returns\<close> with its result.
\<close>

datatype 'a go = Panics string | Returns 'a

text \<open>
  The names of the shared \<^verbatim>\<open>os.*\<close> metrics are constants of package
  \<^verbatim>\<open>collectors\<close> declared outside the source files at hand; the collectors take them
  as a parameter.
\<close>

record metric_names =
  osMemTotal :: string
  osMemUsed :: string
  osMemFree :: string
  osMemPctFree :: string
  osDiskTotal :: string
  osDiskUsed :: string
  osDiskPctFree :: string
  osSystemUptime :: string
  osSystemUptimeDesc :: string

record Win32_PerfRawData_PerfOS_System =
  Frequency_Object :: uint64
  Processes :: uint32
  SystemUpTime :: uint64
  Timestamp_Object :: uint64

text \<open>
  The loop of \<^verbatim>\<open>c_system_windows\<close> over the rows of the WMI query. The quotient is an
  unsigned 64-bit division; Go panics when the divisor is zero.
\<close>

fun system_windows_rows ::
  "env \<Rightarrow> metric_names \<Rightarrow> Win32_PerfRawData_PerfOS_System list \<Rightarrow> MultiDataPoint
     \<Rightarrow> MultiDataPoint go" where
  "system_windows_rows e k [] md = Returns md"
| "system_windows_rows e k (v # vs) md =
     (if Frequency_Object v = 0
      then Panics ''runtime error: integer divide by zero''
      else
        (let uptime = (Timestamp_Object v - SystemUpTime v) div Frequency_Object v;
             md1 = Add e md ''win.system.uptime'' (V_uint64 uptime) [] Gauge Second
                     (osSystemUptimeDesc k);
             md2 = Add e md1 ''win.system.processes'' (V_uint32 (Processes v)) [] Gauge Count
                     ''Total running process count.'';
             md3 = Add e md2 (osSystemUptime k) (V_uint64 uptime) [] Gauge Second
                     (osSystemUptimeDesc k)
         in system_windows_rows e k vs md3))"

text \<open>
  \<^verbatim>\<open>c_system_windows\<close>; its first argument after the names is what
  \<^verbatim>\<open>queryWmi(q, &dst)\<close> leaves: an error, or the rows in \<^verbatim>\<open>dst\<close>.
\<close>

definition c_system_windows ::
  "env \<Rightarrow> metric_names \<Rightarrow> error + Win32_PerfRawData_PerfOS_System list \<Rightarrow> collected go" where
  "c_system_windows e k wmi =
     (case wmi of
        Inl err \<Rightarrow> Returns ([], Some err)
      | Inr dst \<Rightarrow>
          (case system_windows_rows e k dst [] of
             Panics msg \<Rightarrow> Panics msg
           | Returns md \<Rightarrow> Returns (md, None)))"

section \<open>The vSphere collector\<close>

subsection \<open>Decimal integers\<close>

text \<open>
  \<^verbatim>\<open>strconv.ParseInt(s, 10, 64)\<close> of the Go library: an optional sign, then one or
  more decimal digits, and a value that fits an \<^verbatim>\<open>int64\<close>; anything else is an
  error (\<open>None\<close>; the callers only test it against nil).
\<close>

definition digit_val :: "char \<Rightarrow> int option" where
  "digit_val c =
     (if (48::int) \<le> of_char c \<and> of_char c \<le> (57::int) then Some (of_char c - 48) else None)"

fun parse_digits :: "string \<Rightarrow> int \<Rightarrow> int option" where
  "parse_digits [] n = Some n"
| "parse_digits (c # cs) n =
     (case digit_val c of None \<Rightarrow> None | Some d \<Rightarrow> parse_digits cs (n * 10 + d))"

definition ParseUint :: "string \<Rightarrow> int option" where
  "ParseUint s = (if s = [] then None else parse_digits s 0)"

definition ParseInt :: "string \<Rightarrow> int64 option" where
  "ParseInt s =
     (case s of
        [] \<Rightarrow> None
      | c # cs \<Rightarrow>
          (let neg = (c = CHR ''-'');
               body = (if c = CHR ''+'' \<or> c = CHR ''-'' then cs else s)
           in case ParseUint body of
                None \<Rightarrow> None
              | Some un \<Rightarrow>
                  if \<not> neg \<and> un \<ge> 2 ^ 63 then None
                  else if neg \<and> un > 2 ^ 63 then None
                  else Some (if neg then - (word_of_int un) else word_of_int un)))"

subsection \<open>Query results\<close>

text \<open>The rows \<^verbatim>\<open>v.Info\<close> of the vsphere library returns.\<close>

record Val =
  Type :: string
  Inner :: string

record Prop =
  Name :: string
  Val :: Val

record Result =
  Props :: "Prop list"

text \<open>A connection, seen through its one method \<^verbatim>\<open>Info(kind, properties)\<close>.\<close>

type_synonym Vsphere = "string \<Rightarrow> string list \<Rightarrow> error + Result list"

definition xsd_integer :: "string \<Rightarrow> bool" where
  "xsd_integer ty \<longleftrightarrow> ty = ''xsd:long'' \<or> ty = ''xsd:int'' \<or> ty = ''xsd:short''"

text \<open>
  The first property called \<^verbatim>\<open>name\<close>, passed through \<open>clean\<close>; the empty string when
  there is none (the loop with \<^verbatim>\<open>break\<close> at the head of both record loops).
\<close>

definition record_name :: "(string \<Rightarrow> string) \<Rightarrow> Prop list \<Rightarrow> string" where
  "record_name clean ps =
     (case find (\<lambda>p. Name p = ''name'') ps of None \<Rightarrow> [] | Some p \<Rightarrow> clean (Inner (Val p)))"

definition bad_integer :: "string \<Rightarrow> error" where
  "bad_integer inner = Err (''vsphere bad integer:%!(EXTRA string='' @ inner @ '')'')"

subsection \<open>Hosts\<close>

text \<open>
  The variables the property loop of \<^verbatim>\<open>vsphereHost\<close> updates: the batch behind
  \<^verbatim>\<open>md\<close>, the function's \<^verbatim>\<open>Error\<close>, and the record's five \<^verbatim>\<open>int64\<close> locals.
\<close>

record host_vars =
  h_md :: MultiDataPoint
  h_Error :: "error option"
  memTotal :: int64
  memUsed :: int64
  cpuMhz :: int64
  cpuCores :: int64
  cpuUse :: int64

definition vsphereHost_prop ::
  "env \<Rightarrow> metric_names \<Rightarrow> string \<Rightarrow> TagSet \<Rightarrow> host_vars \<Rightarrow> Prop \<Rightarrow> host_vars" where
  "vsphereHost_prop e k name tags s p =
     (if xsd_integer (Type (Val p)) then
        (case ParseInt (Inner (Val p)) of
           None \<Rightarrow> s\<lparr>h_Error := Some (bad_integer (Inner (Val p)))\<rparr>
         | Some i \<Rightarrow>
             if Name p = ''summary.hardware.memorySize'' then
               s\<lparr>h_md := Add e (h_md s) (osMemTotal k) (V_int64 i) tags Gauge Bytes [],
                  memTotal := i\<rparr>
             else if Name p = ''summary.quickStats.overallMemoryUsage'' then
               s\<lparr>memUsed := i * 1024 * 1024,
                  h_md := Add e (h_md s) (osMemUsed k) (V_int64 (i * 1024 * 1024)) tags
                            Gauge Bytes []\<rparr>
             else if Name p = ''summary.hardware.cpuMhz'' then
               s\<lparr>cpuMhz := i\<rparr>
             else if Name p = ''summary.quickStats.overallCpuUsage'' then
               s\<lparr>cpuUse := i,
                  h_md := Add e (h_md s) ''vsphere.cpu'' (V_int64 i)
                            [(''host'', name), (''type'', ''usage'')] Gauge MHz []\<rparr>
             else if Name p = ''summary.hardware.numCpuCores'' then
               s\<lparr>cpuCores := i\<rparr>
             else s)
      else s)"

text \<open>The two derived groups added after the property loop, each behind its guard.\<close>

definition host_mem_derived ::
  "env \<Rightarrow> metric_names \<Rightarrow> TagSet \<Rightarrow> host_vars \<Rightarrow> MultiDataPoint \<Rightarrow> MultiDataPoint" where
  "host_mem_derived e k tags s md =
     (if 0 <s memTotal s \<and> 0 <s memUsed s then
        (let memFree = memTotal s - memUsed s;
             md1 = Add e md (osMemFree k) (V_int64 memFree) tags Gauge Bytes []
         in Add e md1 (osMemPctFree k)
              (V_float64 (F64_mul (F64_div (F64_of_int (sint memFree))
                                            (F64_of_int (sint (memTotal s))))
                                   (F64_of_int 100)))
              tags Gauge Pct [])
      else md)"

definition host_cpu_derived ::
  "env \<Rightarrow> string \<Rightarrow> TagSet \<Rightarrow> host_vars \<Rightarrow> MultiDataPoint \<Rightarrow> MultiDataPoint" where
  "host_cpu_derived e name tags s md =
     (if 0 <s cpuMhz s \<and> 0 <s cpuUse s \<and> 0 <s cpuCores s then
        (let cpuTotal = cpuMhz s * cpuCores s;
             md1 = Add e md ''vsphere.cpu'' (V_int64 (cpuTotal - cpuUse s))
                     [(''host'', name), (''type'', ''idle'')] Gauge MHz []
         in Add e md1 ''vsphere.cpu.pct''
              (V_float64 (F64_mul (F64_div (F64_of_int (sint (cpuUse s)))
                                            (F64_of_int (sint cpuTotal)))
                                   (F64_of_int 100)))
              tags Gauge Pct [])
      else md)"

text \<open>
  One iteration of the outer loop of \<^verbatim>\<open>vsphereHost\<close>, on the pair of the batch and
  \<^verbatim>\<open>Error\<close>. \<open>clean\<close> stands for \<^verbatim>\<open>util.Clean\<close>, which is not among the source
  files.
\<close>

definition vsphereHost_record ::
  "env \<Rightarrow> metric_names \<Rightarrow> (string \<Rightarrow> string) \<Rightarrow> collected \<Rightarrow> Result \<Rightarrow> collected" where
  "vsphereHost_record e k clean acc r =
     (let name = record_name clean (Props r) in
      if name = [] then (fst acc, Some (Err ''vsphere: empty name''))
      else
        (let tags = [(''host'', name)];
             s0 = \<lparr>h_md = fst acc, h_Error = snd acc, memTotal = 0, memUsed = 0, cpuMhz = 0,
                   cpuCores = 0, cpuUse = 0\<rparr>;
             s = foldl (vsphereHost_prop e k name tags) s0 (Props r)
         in (host_cpu_derived e name tags s (host_mem_derived e k tags s (h_md s)),
             h_Error s)))"

definition host_properties :: "string list" where
  "host_properties =
     [''name'', ''summary.hardware.numCpuCores'', ''summary.hardware.cpuMhz'',
      ''summary.hardware.memorySize'', ''summary.hardware.numCpuCores'',
      ''summary.quickStats.overallCpuUsage'', ''summary.quickStats.overallMemoryUsage'']"

text \<open>
  \<^verbatim>\<open>vsphereHost(v, md)\<close>: the batch behind \<^verbatim>\<open>md\<close> goes in, the updated batch and the
  returned error come out.
\<close>

definition vsphereHost ::
  "env \<Rightarrow> metric_names \<Rightarrow> (string \<Rightarrow> string) \<Rightarrow> Vsphere \<Rightarrow> MultiDataPoint \<Rightarrow> collected" where
  "vsphereHost e k clean v md =
     (case v ''HostSystem'' host_properties of
        Inl err \<Rightarrow> (md, Some err)
      | Inr res \<Rightarrow> foldl (vsphereHost_record e k clean) (md, None) res)"

subsection \<open>Datastores\<close>

record datastore_vars =
  d_md :: MultiDataPoint
  d_Error :: "error option"
  diskTotal :: int64
  diskFree :: int64

definition vsphereDatastore_prop ::
  "env \<Rightarrow> metric_names \<Rightarrow> TagSet \<Rightarrow> datastore_vars \<Rightarrow> Prop \<Rightarrow> datastore_vars" where
  "vsphereDatastore_prop e k tags s p =
     (if xsd_integer (Type (Val p)) then
        (case ParseInt (Inner (Val p)) of
           None \<Rightarrow> s\<lparr>d_Error := Some (bad_integer (Inner (Val p)))\<rparr>
         | Some i \<Rightarrow>
             if Name p = ''summary.capacity'' then
               s\<lparr>d_md := Add e (Add e (d_md s) (osDiskTotal k) (V_int64 i) tags Gauge Bytes [])
                            ''vsphere.disk.space_total'' (V_int64 i) tags Gauge Bytes [],
                  diskTotal := i\<rparr>
             else if Name p = ''summary.freeSpace'' then
               s\<lparr>d_md := Add e (d_md s) ''vsphere.disk.space_free'' (V_int64 i) tags
                            Gauge Bytes [],
                  diskFree := i\<rparr>
             else s)
      else s)"

definition datastore_derived ::
  "env \<Rightarrow> metric_names \<Rightarrow> TagSet \<Rightarrow> datastore_vars \<Rightarrow> MultiDataPoint \<Rightarrow> MultiDataPoint" where
  "datastore_derived e k tags s md =
     (if 0 <s diskTotal s \<and> 0 <s diskFree s then
        (let diskUsed = diskTotal s - diskFree s;
             md1 = Add e md ''vsphere.disk.space_used'' (V_int64 diskUsed) tags Gauge Bytes [];
             md2 = Add e md1 (osDiskUsed k) (V_int64 diskUsed) tags Gauge Bytes []
         in Add e md2 (osDiskPctFree k)
              (V_float64 (F64_mul (F64_div (F64_of_int (sint (diskFree s)))
                                            (F64_of_int (sint (diskTotal s))))
                                   (F64_of_int 100)))
              tags Gauge Pct [])
      else md)"

definition vsphereDatastore_record ::
  "env \<Rightarrow> metric_names \<Rightarrow> collected \<Rightarrow> Result \<Rightarrow> collected" where
  "vsphereDatastore_record e k acc r =
     (let name = record_name (\<lambda>x. x) (Props r) in
      if name = [] then (fst acc, Some (Err ''vsphere: empty name''))
      else
        (let tags = [(''disk'', name), (''host'', [])];
             s0 = \<lparr>d_md = fst acc, d_Error = snd acc, diskTotal = 0, diskFree = 0\<rparr>;
             s = foldl (vsphereDatastore_prop e k tags) s0 (Props r)
         in (datastore_derived e k tags s (d_md s), d_Error s)))"

definition datastore_properties :: "string list" where
  "datastore_properties = [''name'', ''summary.capacity'', ''summary.freeSpace'']"

definition vsphereDatastore ::
  "env \<Rightarrow> metric_names \<Rightarrow> Vsphere \<Rightarrow> MultiDataPoint \<Rightarrow> collected" where
  "vsphereDatastore e k v md =
     (case v ''Datastore'' datastore_properties of
        Inl err \<Rightarrow> (md, Some err)
      | Inr res \<Rightarrow> foldl (vsphereDatastore_record e k) (md, None) res)"

subsection \<open>The collector\<close>

text \<open>
  \<^verbatim>\<open>c_vsphere\<close>; \<open>connect\<close> stands for \<^verbatim>\<open>vsphere.Connect\<close> of the vsphere library.
\<close>

definition c_vsphere ::
  "env \<Rightarrow> metric_names \<Rightarrow> (string \<Rightarrow> string) \<Rightarrow> (string \<Rightarrow> string \<Rightarrow> string \<Rightarrow> error + Vsphere)
     \<Rightarrow> string \<Rightarrow> string \<Rightarrow> string \<Rightarrow> collected" where
  "c_vsphere e k clean connect user pwd host =
     (case connect host user pwd of
        Inl err \<Rightarrow> ([], Some err)
      | Inr v \<Rightarrow>
          (let h = vsphereHost e k clean v [] in
           case snd h of
             Some err \<Rightarrow> ([], Some err)
           | None \<Rightarrow>
               (let d = vsphereDatastore e k v (fst h) in
                case snd d of
                  Some err \<Rightarrow> ([], Some err)
                | None \<Rightarrow> (fst d, None))))"

section \<open>The agent's entry point\<close>

subsection \<open>Strings\<close>

text \<open>
  The functions of Go's \<^verbatim>\<open>strings\<close> package that \<^verbatim>\<open>main\<close> calls, for the one-byte
  separators it passes: \<^verbatim>\<open>Contains\<close>, \<^verbatim>\<open>Split(s, sep)\<close>, \<^verbatim>\<open>SplitN(s, sep, 2)\<close> and
  \<^verbatim>\<open>LastIndex\<close> (\<open>None\<close> for -1).
\<close>

fun Contains :: "string \<Rightarrow> string \<Rightarrow> bool" where
  "Contains [] substr \<longleftrightarrow> substr = []"
| "Contains (c # cs) substr \<longleftrightarrow>
     take (length substr) (c # cs) = substr \<or> Contains cs substr"

fun Split :: "string \<Rightarrow> char \<Rightarrow> string list" where
  "Split [] sep = [[]]"
| "Split (c # cs) sep =
     (if c = sep then [] # Split cs sep
      else (case Split cs sep of [] \<Rightarrow> [[c]] | w # ws \<Rightarrow> (c # w) # ws))"

definition SplitN2 :: "string \<Rightarrow> char \<Rightarrow> string list" where
  "SplitN2 s sep =
     (if sep \<in> set s
      then [takeWhile (\<lambda>c. c \<noteq> sep) s, tl (dropWhile (\<lambda>c. c \<noteq> sep) s)]
      else [s])"

definition LastIndex :: "string \<Rightarrow> char \<Rightarrow> nat option" where
  "LastIndex s sep =
     (if sep \<in> set s
      then Some (length s - 1 - length (takeWhile (\<lambda>c. c \<noteq> sep) (rev s)))
      else None)"

fun fmt_nat :: "nat \<Rightarrow> string" where
  "fmt_nat n =
     (if n < 10 then [''0123456789'' ! n]
      else fmt_nat (n div 10) @ [''0123456789'' ! (n mod 10)])"

declare fmt_nat.simps [simp del]

definition fmt_int :: "int \<Rightarrow> string" where
  "fmt_int i = (if i < 0 then CHR ''-'' # fmt_nat (nat (- i)) else fmt_nat (nat i))"

subsection \<open>Configuration, collectors and the world around main\<close>

text \<open>The command-line flags, as \<^verbatim>\<open>flag.Parse\<close> leaves them.\<close>

record flags =
  flagFilter :: string
  flagList :: bool
  flagPrint :: bool
  flagHost :: string
  flagColDir :: string
  flagBatchSize :: int
  flagSNMP :: string
  flagICMP :: string
  flagVsphere :: string
  flagFake :: int
  flagDebug :: bool
  flagJSON :: bool
  flagFullHost :: bool
  flagDisableMetadata :: bool
  flagVersion :: bool

text \<open>
  A registered collector, as far as \<^verbatim>\<open>main\<close> sees it: the name its \<^verbatim>\<open>Name()\<close>
  returns, and what its one-time initialisation hook reports when it is called (\<open>None\<close>
  when it succeeds or when there is no hook).
\<close>

record Collector =
  Collector_name :: string
  Collector_init :: "error option"

text \<open>
  What \<^verbatim>\<open>main\<close> calls and does not define: the program name, the file system
  (\<^verbatim>\<open>filepath.Abs\<close>, \<^verbatim>\<open>os.Stat\<close> with the answer of \<^verbatim>\<open>IsDir\<close>, \<^verbatim>\<open>filepath.Ext\<close>,
  \<^verbatim>\<open>filepath.Dir\<close>, \<^verbatim>\<open>filepath.Join\<close>, \<^verbatim>\<open>ioutil.ReadFile\<close>),
  \<^verbatim>\<open>strings.TrimSpace\<close>, the registry as the package's \<^verbatim>\<open>init\<close> functions leave it,
  the collectors each registration function of package \<^verbatim>\<open>collectors\<close> appends,
  \<^verbatim>\<open>url.Parse\<close>, the results of \<^verbatim>\<open>metadata.Init\<close>, \<^verbatim>\<open>collect.InitChan\<close> and
  \<^verbatim>\<open>collect.Put\<close>, whether the channel that \<^verbatim>\<open>collectors.Run\<close> returns is ever
  closed, and the two version constants that are set at build time.
\<close>

record world =
  os_Args0 :: string
  filepath_Abs :: "string \<Rightarrow> error + string"
  os_Stat :: "string \<Rightarrow> error + bool"
  filepath_Ext :: "string \<Rightarrow> string"
  filepath_Dir :: "string \<Rightarrow> string"
  filepath_Join :: "string \<Rightarrow> string \<Rightarrow> string"
  ioutil_ReadFile :: "string \<Rightarrow> error + string"
  strings_TrimSpace :: "string \<Rightarrow> string"
  registered :: "Collector list"
  InitPrograms :: "string \<Rightarrow> Collector list"
  SNMPIfaces :: "string \<Rightarrow> string \<Rightarrow> Collector list"
  SNMPCisco :: "string \<Rightarrow> string \<Rightarrow> Collector list"
  InitFake :: "int \<Rightarrow> Collector list"
  url_Parse :: "string \<Rightarrow> string option \<times> error option"
  metadata_Init :: "string option \<Rightarrow> bool \<Rightarrow> error option"
  collect_InitChan :: "string option \<Rightarrow> error option"
  collect_Put_version :: "error option"
  cdp_closed :: bool
  VersionDate :: nat
  VersionID :: string

text \<open>
  What the process does, in order. \<open>Slog_Error\<close> is a line logged by
  \<^verbatim>\<open>slog.Error\<close> or \<^verbatim>\<open>slog.Errorf\<close>, \<open>Fatal\<close> is \<^verbatim>\<open>slog.Fatal\<close> (log the
  arguments and end the process), \<open>Exit\<close> is \<^verbatim>\<open>os.Exit\<close>, \<open>Return\<close> is \<^verbatim>\<open>main\<close>
  returning. \<open>Init\<close> is the call of a collector's initialisation hook, with the
  collector's name and what the hook reports. \<open>Collectors_Run\<close> is the call
  \<^verbatim>\<open>collectors.Run(c)\<close> that starts the scheduler on \<open>c\<close> and returns the channel
  \<^verbatim>\<open>cdp\<close>; \<open>InitChan\<close> is the call that starts the sender on that channel,
  \<open>Go_watchdog\<close> the start of the memory watchdog goroutine, \<open>PrintPut\<close> the call of
  \<^verbatim>\<open>printPut\<close> on that channel, \<open>Select_forever\<close> the final \<^verbatim>\<open>select {}\<close>.
\<close>

datatype event =
    Slog_Set_stdout
  | Print_version nat string
  | Exit int
  | Slog_Error string
  | Fatal "string list"
  | Init string "error option"
  | Println string
  | Return
  | Metadata_Init
  | Set_DefaultFreq int
  | Infoln "string list"
  | Collectors_Run "Collector list"
  | InitChan
  | Put_version
  | Set_BatchSize int
  | Go_watchdog
  | PrintPut
  | Select_forever

subsection \<open>The configuration file\<close>

definition error_message :: "error \<Rightarrow> string" where
  "error_message err = (case err of Err m \<Rightarrow> m)"

text \<open>
  \<^verbatim>\<open>exePath\<close>. The second \<^verbatim>\<open>os.Stat\<close> declares an \<^verbatim>\<open>err\<close> of its own inside
  the \<^verbatim>\<open>if\<close> block, so the error returned at the end is the one of the first
  \<^verbatim>\<open>os.Stat\<close>, or the \<^verbatim>\<open>is directory\<close> error built from the first path.
\<close>

definition exePath :: "world \<Rightarrow> error + string" where
  "exePath w =
     (case filepath_Abs w (os_Args0 w) of
        Inl err \<Rightarrow> Inl err
      | Inr p \<Rightarrow>
          (case os_Stat w p of
             Inr False \<Rightarrow> Inr p
           | st \<Rightarrow>
               (let err = (case st of Inl e \<Rightarrow> e | Inr d \<Rightarrow> Err (p @ '' is directory''))
                in if filepath_Ext w p = []
                   then (case os_Stat w (p @ ''.exe'') of
                           Inr False \<Rightarrow> Inr (p @ ''.exe'')
                         | st' \<Rightarrow> Inl err)
                   else Inl err)))"

text \<open>
  The loop of \<^verbatim>\<open>readConf\<close> over the lines of the file \<open>p\<close>, from line number \<open>i\<close>
  on: what it logs, and the flags it leaves.
\<close>

fun readConf_lines ::
  "world \<Rightarrow> string \<Rightarrow> nat \<Rightarrow> string list \<Rightarrow> flags \<Rightarrow> event list \<times> flags" where
  "readConf_lines w p i [] f = ([], f)"
| "readConf_lines w p i (line # ls) f =
     (let sp = SplitN2 line CHR ''=''
      in if length sp \<noteq> 2
         then (let r = readConf_lines w p (Suc i) ls f
               in ((if flagDebug f
                    then [Slog_Error (''expected = in '' @ p @ '':'' @ fmt_nat i)]
                    else []) @ fst r,
                   snd r))
         else
           (let k = strings_TrimSpace w (sp ! 0);
                v = strings_TrimSpace w (sp ! 1);
                known = (k = ''host'' \<or> k = ''filter'' \<or> k = ''coldir'' \<or> k = ''snmp'' \<or>
                         k = ''icmp'' \<or> k = ''vsphere'');
                f' = (if k = ''host'' then f\<lparr>flagHost := v\<rparr>
                      else if k = ''filter'' then f\<lparr>flagFilter := v\<rparr>
                      else if k = ''coldir'' then f\<lparr>flagColDir := v\<rparr>
                      else if k = ''snmp'' then f\<lparr>flagSNMP := v\<rparr>
                      else if k = ''icmp'' then f\<lparr>flagICMP := v\<rparr>
                      else if k = ''vsphere'' then f\<lparr>flagVsphere := v\<rparr>
                      else f);
                r = readConf_lines w p (Suc i) ls f'
            in ((if \<not> known \<and> flagDebug f
                 then [Slog_Error (''unknown key in '' @ p @ '':'' @ fmt_nat i)]
                 else []) @ fst r,
                snd r)))"

text \<open>\<^verbatim>\<open>readConf\<close>: what it logs, and the flags it leaves.\<close>

definition readConf :: "world \<Rightarrow> flags \<Rightarrow> event list \<times> flags" where
  "readConf w f =
     (case exePath w of
        Inl err \<Rightarrow> ([Slog_Error (error_message err)], f)
      | Inr p0 \<Rightarrow>
          (let p = filepath_Join w (filepath_Dir w p0) ''scollector.conf''
           in case ioutil_ReadFile w p of
                Inl err \<Rightarrow> (if flagDebug f then [Slog_Error (error_message err)] else [], f)
              | Inr b \<Rightarrow> readConf_lines w p 1 (Split b CHR 0x0A) f))"

subsection \<open>Registration\<close>

text \<open>\<^verbatim>\<open>ICMP(host)\<close> and \<^verbatim>\<open>Vsphere(user, pwd, host)\<close> append one collector each.\<close>

definition ICMP :: "string \<Rightarrow> Collector" where
  "ICMP host = \<lparr>Collector_name = ''icmp-'' @ host, Collector_init = None\<rparr>"

definition Vsphere :: "string \<Rightarrow> string \<Rightarrow> string \<Rightarrow> Collector" where
  "Vsphere user pwd host = \<lparr>Collector_name = ''vsphere-'' @ host, Collector_init = None\<rparr>"

text \<open>
  The loops of \<^verbatim>\<open>main\<close> over the pieces of the \<^verbatim>\<open>-s\<close> and \<^verbatim>\<open>-v\<close> strings. Each
  returns the registry, or the arguments of the \<^verbatim>\<open>slog.Fatal\<close> that ends the process.
\<close>

fun register_snmp ::
  "world \<Rightarrow> string \<Rightarrow> string list \<Rightarrow> Collector list \<Rightarrow> string list + Collector list" where
  "register_snmp w whole [] reg = Inr reg"
| "register_snmp w whole (s # ss) reg =
     (let sp = Split s CHR ''@'' in
      if length sp \<noteq> 2 then Inl [''invalid snmp string:'', whole]
      else register_snmp w whole ss
             (reg @ SNMPIfaces w (sp ! 0) (sp ! 1) @ SNMPCisco w (sp ! 0) (sp ! 1)))"

fun register_vsphere ::
  "string \<Rightarrow> string list \<Rightarrow> Collector list \<Rightarrow> string list + Collector list" where
  "register_vsphere whole [] reg = Inr reg"
| "register_vsphere whole (s # ss) reg =
     (let sp = SplitN2 s CHR '':'' in
      if length sp \<noteq> 2 then Inl [''invalid vsphere string:'', whole]
      else
        (let user = sp ! 0 in
         case LastIndex (sp ! 1) CHR ''@'' of
           None \<Rightarrow> Inl [''invalid vsphere string:'', whole]
         | Some idx \<Rightarrow>
             (let pwd = take idx (sp ! 1);
                  host = drop (idx + 1) (sp ! 1)
              in if length user = 0 \<or> length pwd = 0 \<or> length host = 0
                 then Inl [''invalid vsphere string:'', whole]
                 else register_vsphere whole ss (reg @ [Vsphere user pwd host]))))"

text \<open>Lines 117 to 156 of \<^verbatim>\<open>main\<close>: every registration the flags ask for.\<close>

definition register :: "world \<Rightarrow> flags \<Rightarrow> string list + Collector list" where
  "register w f =
     (let r1 = registered w @ (if flagColDir f \<noteq> [] then InitPrograms w (flagColDir f) else []) in
      case (if flagSNMP f \<noteq> []
            then register_snmp w (flagSNMP f) (Split (flagSNMP f) CHR '','') r1
            else Inr r1) of
        Inl args \<Rightarrow> Inl args
      | Inr r2 \<Rightarrow>
          (let r3 = r2 @ (if flagICMP f \<noteq> [] then map ICMP (Split (flagICMP f) CHR '','') else []) in
           case (if flagVsphere f \<noteq> []
                 then register_vsphere (flagVsphere f) (Split (flagVsphere f) CHR '','') r3
                 else Inr r3) of
             Inl args \<Rightarrow> Inl args
           | Inr r4 \<Rightarrow> Inr (r4 @ (if flagFake f > 0 then InitFake w (flagFake f) else []))))"

text \<open>
  Modelled from the spec: \<^verbatim>\<open>collectors.Search\<close> is not among the source files.
  Section 4.2: the registry supports a substring filter over collector names to select
  the subset to run.
\<close>

definition Search :: "string \<Rightarrow> Collector list \<Rightarrow> Collector list" where
  "Search s reg = filter (\<lambda>c. Contains (Collector_name c) s) reg"


subsection \<open>main\<close>

text \<open>
  \<^verbatim>\<open>parseHost\<close>; it returns the value it leaves in \<^verbatim>\<open>*flagHost\<close> beside its two
  results.
\<close>

definition parseHost ::
  "world \<Rightarrow> string \<Rightarrow> string \<times> string option \<times> error option" where
  "parseHost w host =
     (if host = [] then (host, None, Some (Err ''empty host''))
      else
        (let host' = (if \<not> Contains host ''//'' then ''http://'' @ host else host)
         in (host', url_Parse w host')))"

definition list :: "Collector list \<Rightarrow> event list" where
  "list cs = map (\<lambda>c. Println (Collector_name c)) cs"

text \<open>The network branch of \<^verbatim>\<open>main\<close>, lines 180 to 201, and the \<^verbatim>\<open>select {}\<close>.\<close>

definition network_delivery :: "world \<Rightarrow> flags \<Rightarrow> string option \<Rightarrow> event list" where
  "network_delivery w f u =
     Infoln [''OpenTSDB host:'', (case u of None \<Rightarrow> [] | Some a \<Rightarrow> a)] #
     InitChan #
     (case collect_InitChan w u of
        Some err \<Rightarrow> [Fatal [error_message err]]
      | None \<Rightarrow>
          (if VersionDate w > 0
           then Put_version #
                (case collect_Put_version w of
                   Some err \<Rightarrow> [Slog_Error (error_message err)]
                 | None \<Rightarrow> [])
           else []) @
          (if flagBatchSize f > 0 then [Set_BatchSize (flagBatchSize f)] else []) @
          [Go_watchdog, Select_forever])"

text \<open>
  The print branch, lines 203 to 205: \<^verbatim>\<open>printPut\<close> returns only if the channel is
  closed, and \<^verbatim>\<open>main\<close> then reaches the \<^verbatim>\<open>select {}\<close> as well.
\<close>

definition local_delivery :: "world \<Rightarrow> event list" where
  "local_delivery w =
     Infoln [''Outputting to screen''] # PrintPut #
     (if cdp_closed w then [Select_forever] else [])"

text \<open>Lines 169 to 206: from the metadata initialisation to the end.\<close>

definition run_phase :: "world \<Rightarrow> flags \<Rightarrow> string option \<Rightarrow> Collector list \<Rightarrow> event list" where
  "run_phase w f u c =
     (let rest =
        (if flagPrint f
         then [Set_DefaultFreq (time_Second * 3), Infoln [''Set default frequency to'', ''3s'']]
         else []) @
        Collectors_Run c #
        (if u \<noteq> None \<and> \<not> flagPrint f then network_delivery w f u
         else local_delivery w)
      in if \<not> flagDisableMetadata f
         then Metadata_Init #
              (case metadata_Init w u (flagDebug f) of
                 Some err \<Rightarrow> [Fatal [error_message err]]
               | None \<Rightarrow> rest)
         else rest)"

text \<open>
  Lines 157 to 168: selection, initialisation hooks, the listing, the host check. The
  loop of lines 159 to 161 calls each hook and does nothing with what it reports.
\<close>

definition startup :: "world \<Rightarrow> flags \<Rightarrow> Collector list \<Rightarrow> event list" where
  "startup w f reg =
     (let c = Search (flagFilter f) reg;
          ph = parseHost w (flagHost f);
          u = fst (snd ph);
          err = snd (snd ph)
      in map (\<lambda>col. Init (Collector_name col) (Collector_init col)) c @
         (if flagList f then list c @ [Return]
          else if err \<noteq> None then [Fatal [''invalid host:'', fst ph]]
          else run_phase w f u c))"

text \<open>Lines 115 to 206, on the flags that \<^verbatim>\<open>readConf\<close> has left.\<close>

definition configured :: "world \<Rightarrow> flags \<Rightarrow> event list" where
  "configured w f =
     (case register w f of
        Inl args \<Rightarrow> [Fatal args]
      | Inr reg \<Rightarrow> startup w f reg)"

text \<open>
  \<^verbatim>\<open>main\<close>, as the list of what it does, on the flags that \<^verbatim>\<open>flag.Parse\<close> has
  left. The functions collected in \<^verbatim>\<open>mains\<close> (the source files at hand add none) run
  between the version check and \<^verbatim>\<open>readConf\<close>.
\<close>

definition main :: "world \<Rightarrow> flags \<Rightarrow> event list" where
  "main w f =
     (if flagPrint f then [Slog_Set_stdout] else []) @
     (if flagVersion f then [Print_version (VersionDate w) (VersionID w), Exit 0]
      else fst (readConf w f) @ configured w (snd (readConf w f)))"

subsection \<open>The memory watchdog\<close>

definition maxMem :: uint64 where
  "maxMem = 500 * 1024 * 1024"

text \<open>
  The goroutine of lines 192 to 201, run on the readings of \<^verbatim>\<open>m.Alloc\<close> at the
  successive ticks of \<^verbatim>\<open>time.Tick(time.Minute)\<close>: it panics, which ends the process, at
  the first tick whose reading is above \<open>maxMem\<close>, and is still watching when the
  readings run out.
\<close>

datatype watch = Panicked nat | Watching

fun watchdog_from :: "nat \<Rightarrow> uint64 list \<Rightarrow> watch" where
  "watchdog_from n [] = Watching"
| "watchdog_from n (alloc # rest) =
     (if alloc > maxMem then Panicked n else watchdog_from (Suc n) rest)"

definition watchdog :: "uint64 list \<Rightarrow> watch" where
  "watchdog readings = watchdog_from 0 readings"

text \<open>
  The watchdog ends the process on these readings: \<^verbatim>\<open>main\<close> starts the goroutine, and
  the goroutine panics.
\<close>

definition ended_by_watchdog :: "world \<Rightarrow> flags \<Rightarrow> uint64 list \<Rightarrow> bool" where
  "ended_by_watchdog w f readings \<longleftrightarrow>
     Go_watchdog \<in> set (main w f) \<and> watchdog readings \<noteq> Watching"

subsection \<open>The local sink\<close>

text \<open>
  Modelled from the spec: the method \<^verbatim>\<open>Telnet\<close> of \<^verbatim>\<open>opentsdb.DataPoint\<close> is not
  among the source files. Section 6, local fallback sink: a point is rendered as a line
  of the form \<^verbatim>\<open>metric timestamp value tag1=val1 tag2=val2 ...\<close>. \<open>fmt_v\<close> is the
  formatting of the value.
\<close>

definition Telnet :: "(val \<Rightarrow> string) \<Rightarrow> DataPoint \<Rightarrow> string" where
  "Telnet fmt_v dp =
     Metric dp @ '' '' @ fmt_int (Timestamp dp) @ '' '' @ fmt_v (Value dp) @
     concat (map (\<lambda>kv. '' '' @ fst kv @ ''='' @ snd kv) (Tags dp))"

text \<open>
  \<^verbatim>\<open>printPut\<close>, on the points it has received from the channel so far: what it has
  passed to \<^verbatim>\<open>slog.Info\<close>. \<open>marshal\<close> is \<^verbatim>\<open>json.Marshal\<close>, whose error the function
  drops.
\<close>

definition printPut ::
  "flags \<Rightarrow> (DataPoint \<Rightarrow> string \<times> error option) \<Rightarrow> (val \<Rightarrow> string) \<Rightarrow> DataPoint list
     \<Rightarrow> string list" where
  "printPut f marshal fmt_v c =
     map (\<lambda>dp. if flagJSON f then fst (marshal dp) else Telnet fmt_v dp) c"

section \<open>Readings of a host record\<close>

text \<open>
  What a record says about a numeric property, in the words of the claims about
  \<^verbatim>\<open>vsphereHost\<close>: the value of the last property of that name that has an integer
  type and a well-formed decimal value, and 0 when the record has none. The property
  theorems relate the loop variables of \<^verbatim>\<open>vsphereHost\<close> to these readings.
\<close>

definition integer_value :: "Prop \<Rightarrow> int64 option" where
  "integer_value p = (if xsd_integer (Type (Val p)) then ParseInt (Inner (Val p)) else None)"

definition reading_from :: "int64 \<Rightarrow> string \<Rightarrow> Prop list \<Rightarrow> int64" where
  "reading_from i0 n ps =
     foldl (\<lambda>i p. if Name p = n then (case integer_value p of None \<Rightarrow> i | Some j \<Rightarrow> j) else i)
       i0 ps"

definition reading :: "string \<Rightarrow> Prop list \<Rightarrow> int64" where
  "reading n ps = reading_from 0 n ps"

section \<open>Example inputs\<close>

definition example_env :: env where
  "example_env = \<lparr>Hostname = ''agent'', Now = 1400000000, CallerTagsWin = True\<rparr>"

definition example_names :: metric_names where
  "example_names =
     \<lparr>osMemTotal = ''os.mem.total'', osMemUsed = ''os.mem.used'', osMemFree = ''os.mem.free'',
      osMemPctFree = ''os.mem.percent_free'', osDiskTotal = ''os.disk.fs.space_total'',
      osDiskUsed = ''os.disk.fs.space_used'', osDiskPctFree = ''os.disk.fs.percent_free'',
      osSystemUptime = ''os.system.uptime'', osSystemUptimeDesc = ''Seconds since last reboot.''\<rparr>"

text \<open>
  A network in which every name resolves to itself; 10.0.0.1 answers after 7 ms,
  10.0.0.2 never answers, and a ping run to any other address sees one reply and
  then fails.
\<close>

definition example_net :: icmp_net where
  "example_net =
     \<lparr>ResolveIPAddr = (\<lambda>host. Inr host),
      Pinger_Run = (\<lambda>p. if addrs p = [''10.0.0.1''] then ([7000000], None)
                         else if addrs p = [''10.0.0.2''] then ([], None)
                         else ([7000000], Some (Err ''write: network is unreachable'')))\<rparr>"

definition example_rows :: "Win32_PerfRawData_PerfOS_System list" where
  "example_rows =
     [\<lparr>Frequency_Object = 10, Processes = 5, SystemUpTime = 200, Timestamp_Object = 100\<rparr>]"

definition mk_prop :: "string \<Rightarrow> string \<Rightarrow> string \<Rightarrow> Prop" where
  "mk_prop n ty inner = \<lparr>Name = n, Val = \<lparr>Type = ty, Inner = inner\<rparr>\<rparr>"

definition example_host :: Result where
  "example_host =
     \<lparr>Props = [mk_prop ''name'' ''xsd:string'' ''esx1'',
                mk_prop ''summary.hardware.memorySize'' ''xsd:long'' ''8589934592'',
                mk_prop ''summary.quickStats.overallMemoryUsage'' ''xsd:int'' ''1024'']\<rparr>"

definition nameless_host :: Result where
  "nameless_host =
     \<lparr>Props = [mk_prop ''summary.hardware.memorySize'' ''xsd:long'' ''8589934592'',
                mk_prop ''summary.quickStats.overallMemoryUsage'' ''xsd:int'' ''1024'']\<rparr>"

definition huge_usage_host :: Result where
  "huge_usage_host =
     \<lparr>Props = [mk_prop ''name'' ''xsd:string'' ''esx3'',
                mk_prop ''summary.hardware.memorySize'' ''xsd:long'' ''8589934592'',
                mk_prop ''summary.quickStats.overallMemoryUsage'' ''xsd:long'' ''8796093022208'']\<rparr>"

text \<open>A connection whose one host record carries a malformed integer.\<close>

definition example_vsphere :: Vsphere where
  "example_vsphere kind properties =
     (if kind = ''HostSystem''
      then Inr [\<lparr>Props = [mk_prop ''name'' ''xsd:string'' ''esx2'',
                           mk_prop ''summary.hardware.memorySize'' ''xsd:long'' ''8589934592'',
                           mk_prop ''summary.quickStats.overallCpuUsage'' ''xsd:int'' ''12x'']\<rparr>]
      else Inr [])"

definition example_point :: DataPoint where
  "example_point =
     \<lparr>Metric = ''test.metric'', Timestamp = 1400000000, Value = V_int 5,
      Tags = [(''host'', ''a'')]\<rparr>"

definition example_flags :: flags where
  "example_flags =
     \<lparr>flagFilter = [], flagList = False, flagPrint = False, flagHost = ''bosun'',
      flagColDir = [], flagBatchSize = 0, flagSNMP = [], flagICMP = [], flagVsphere = [],
      flagFake = 0, flagDebug = False, flagJSON = False, flagFullHost = False,
      flagDisableMetadata = False, flagVersion = False\<rparr>"

text \<open>
  Two registered collectors, the first with a failing initialisation hook; the program
  is the file /opt/scollector, there is no configuration file, every other external
  call succeeds, and the channel of the scheduler is never closed.
\<close>

definition example_world :: world where
  "example_world =
     \<lparr>os_Args0 = ''/opt/scollector'', filepath_Abs = (\<lambda>p. Inr p),
      os_Stat = (\<lambda>p. Inr False), filepath_Ext = (\<lambda>p. []), filepath_Dir = (\<lambda>p. ''/opt''),
      filepath_Join = (\<lambda>dir name. dir @ ''/'' @ name),
      ioutil_ReadFile = (\<lambda>p. Inl (Err ''open /opt/scollector.conf: no such file'')),
      strings_TrimSpace =
        (\<lambda>s. rev (dropWhile (\<lambda>c. c = CHR '' '') (rev (dropWhile (\<lambda>c. c = CHR '' '') s)))),
      registered = [\<lparr>Collector_name = ''c_cpu'', Collector_init = Some (Err ''no counters'')\<rparr>,
                    \<lparr>Collector_name = ''c_mem'', Collector_init = None\<rparr>],
      InitPrograms = (\<lambda>dir. []), SNMPIfaces = (\<lambda>community host. []),
      SNMPCisco = (\<lambda>community host. []), InitFake = (\<lambda>n. []),
      url_Parse = (\<lambda>s. (Some s, None)), metadata_Init = (\<lambda>u debug. None),
      collect_InitChan = (\<lambda>u. None), collect_Put_version = None, cdp_closed = False,
      VersionDate = 0, VersionID = []\<rparr>"

text \<open>
  The same world with a configuration file of two lines: \<^verbatim>\<open>filter = mem\<close>, and a
  line without an equals sign.
\<close>

definition conf_world :: world where
  "conf_world =
     example_world\<lparr>ioutil_ReadFile :=
       (\<lambda>p. Inr (''filter = mem'' @ [CHR 0x0A] @ ''bogus''))\<rparr>"

section \<open>Properties of the construction helper\<close>

lemma merge_tags_keys_distinct:
  "distinct (map fst t) \<Longrightarrow> distinct (map fst (merge_tags e t))"
  by (auto simp: merge_tags_def default_tags_def distinct_map_filter)

lemma Add_appends:
  "distinct (map fst t) \<Longrightarrow>
   Add e md name v t rate unit desc =
     md @ [\<lparr>Metric = name, Timestamp = Now e, Value = v, Tags = merge_tags e t\<rparr>]"
  by (simp add: Add_def Let_def merge_tags_keys_distinct)

lemma Add_no_tags:
  "Add e md name v [] rate unit desc =
     md @ [\<lparr>Metric = name, Timestamp = Now e, Value = v, Tags = merge_tags e []\<rparr>]"
  by (rule Add_appends) simp

lemma merge_tags_dst_host:
  "(''dst_host'', host) \<in> set (merge_tags e [(''dst_host'', host)])"
  by (simp add: merge_tags_def default_tags_def)

section \<open>The memory watchdog\<close>

lemma watchdog_from_append:
  "watchdog_from n (ms @ ms') =
     (case watchdog_from n ms of
        Panicked i \<Rightarrow> Panicked i
      | Watching \<Rightarrow> watchdog_from (n + length ms) ms')"
  by (induction ms arbitrary: n) (auto split: watch.split)

text \<open>
  Claim C1. At every tick the watchdog reaches (no earlier tick has ended the process),
  a reading of \<^verbatim>\<open>m.Alloc\<close> above the ceiling \<open>maxMem\<close> makes it panic at that very
  tick, whatever the later readings are, and a reading at or below the ceiling leaves the
  process running after that tick.
\<close>

theorem watchdog_tick:
  assumes "i < length readings" and "watchdog (take i readings) = Watching"
  shows "(maxMem < readings ! i \<longrightarrow>
            watchdog (take (Suc i) readings) = Panicked i \<and> watchdog readings = Panicked i) \<and>
         (readings ! i \<le> maxMem \<longrightarrow> watchdog (take (Suc i) readings) = Watching)"
proof -
  have split: "readings = take i readings @ readings ! i # drop (Suc i) readings"
    using assms(1) by (simp add: id_take_nth_drop)
  have len: "length (take i readings) = i"
    using assms(1) by simp
  have one: "watchdog (take (Suc i) readings) =
      (if maxMem < readings ! i then Panicked i else Watching)"
    using assms len
    by (simp add: watchdog_def take_Suc_conv_app_nth watchdog_from_append)
  have all: "maxMem < readings ! i \<Longrightarrow> watchdog readings = Panicked i"
  proof -
    assume gt: "maxMem < readings ! i"
    have "watchdog_from 0 (take i readings @ readings ! i # drop (Suc i) readings) = Panicked i"
      using assms(2) gt len by (simp add: watchdog_def watchdog_from_append)
    with split show ?thesis by (simp add: watchdog_def)
  qed
  from one all show ?thesis by auto
qed

theorem watchdog_tick_witness:
  "watchdog (take 2 [1, 524288000, 524288001, 3]) = Watching \<and>
   watchdog (take 3 [1, 524288000, 524288001, 3]) = Panicked 2 \<and>
   watchdog [1, 524288000, 524288001, 3] = Panicked 2 \<and>
   watchdog (take 1 [1, 524288000, 524288001, 3]) = Watching"
  using watchdog_tick [of 2 "[1, 524288000, 524288001, 3]"]
    watchdog_tick [of 0 "[1, 524288000, 524288001, 3]"]
  by (simp add: watchdog_def maxMem_def)

section \<open>The ICMP collector\<close>

lemma icmp_receive_foldl:
  "foldl (icmp_receive e host) (md, t0) rtts =
     (md @ map (\<lambda>t. \<lparr>Metric = ''ping.rtt'', Timestamp = Now e,
                      Value = V_float64 (F64_div (F64_of_int t) (F64_of_int 1000000)),
                      Tags = merge_tags e [(''dst_host'', host)]\<rparr>) rtts,
      if rtts = [] then t0 else 0)"
proof (induction rtts arbitrary: md t0)
  case Nil
  then show ?case by simp
next
  case (Cons t rtts)
  have step: "icmp_receive e host (md, t0) t =
      (md @ [\<lparr>Metric = ''ping.rtt'', Timestamp = Now e,
               Value = V_float64 (F64_div (F64_of_int t) (F64_of_int 1000000)),
               Tags = merge_tags e [(''dst_host'', host)]\<rparr>], 0)"
    by (simp add: icmp_receive_def Add_appends time_Millisecond_def)
  show ?case
    by (simp add: step Cons.IH)
qed

text \<open>
  Claim C9. When \<^verbatim>\<open>c_icmp\<close> returns no error, the address resolved, the ping run
  (with \<^verbatim>\<open>MaxRTT\<close> set to 5 seconds) returned no error, and the batch is: one
  \<^verbatim>\<open>ping.rtt\<close> point per reply the run handed to the handler, holding the round-trip
  time divided by a millisecond, followed by exactly one \<^verbatim>\<open>ping.timeout\<close> point whose
  value is 1 when there was no reply and 0 otherwise. Both carry the tag
  \<^verbatim>\<open>dst_host=host\<close>.
\<close>

theorem c_icmp_success_batch:
  assumes "snd (c_icmp e w host) = None"
  shows "\<exists>ra rtts.
           ResolveIPAddr w host = Inr ra \<and>
           Pinger_Run w \<lparr>addrs = [ra], MaxRTT = 5000000000\<rparr> = (rtts, None) \<and>
           fst (c_icmp e w host) =
             map (\<lambda>t. \<lparr>Metric = ''ping.rtt'', Timestamp = Now e,
                        Value = V_float64 (F64_div (F64_of_int t) (F64_of_int 1000000)),
                        Tags = merge_tags e [(''dst_host'', host)]\<rparr>) rtts @
             [\<lparr>Metric = ''ping.timeout'', Timestamp = Now e,
               Value = V_int (if rtts = [] then 1 else 0),
               Tags = merge_tags e [(''dst_host'', host)]\<rparr>] \<and>
           (''dst_host'', host) \<in> set (merge_tags e [(''dst_host'', host)])"
proof (cases "ResolveIPAddr w host")
  case (Inl err)
  with assms show ?thesis by (simp add: c_icmp_def)
next
  case (Inr ra)
  obtain rtts r where run: "Pinger_Run w \<lparr>addrs = [ra], MaxRTT = 5000000000\<rparr> = (rtts, r)"
    by (cases "Pinger_Run w \<lparr>addrs = [ra], MaxRTT = 5000000000\<rparr>")
  from assms Inr run have r: "r = None"
    by (cases r) (simp_all add: c_icmp_def time_Second_def time_Millisecond_def)
  have "fst (c_icmp e w host) =
             map (\<lambda>t. \<lparr>Metric = ''ping.rtt'', Timestamp = Now e,
                        Value = V_float64 (F64_div (F64_of_int t) (F64_of_int 1000000)),
                        Tags = merge_tags e [(''dst_host'', host)]\<rparr>) rtts @
             [\<lparr>Metric = ''ping.timeout'', Timestamp = Now e,
               Value = V_int (if rtts = [] then 1 else 0),
               Tags = merge_tags e [(''dst_host'', host)]\<rparr>]"
    using Inr run r
    by (simp add: c_icmp_def time_Second_def time_Millisecond_def icmp_receive_foldl Add_appends)
  with Inr run r show ?thesis
    by (simp add: merge_tags_dst_host)
qed

theorem c_icmp_success_batch_witness:
  "snd (c_icmp example_env example_net ''10.0.0.1'') = None \<and>
   fst (c_icmp example_env example_net ''10.0.0.1'') =
     [\<lparr>Metric = ''ping.rtt'', Timestamp = 1400000000,
        Value = V_float64 (F64_div (F64_of_int 7000000) (F64_of_int 1000000)),
        Tags = [(''dst_host'', ''10.0.0.1''), (''host'', ''agent'')]\<rparr>,
      \<lparr>Metric = ''ping.timeout'', Timestamp = 1400000000, Value = V_int 0,
        Tags = [(''dst_host'', ''10.0.0.1''), (''host'', ''agent'')]\<rparr>] \<and>
   c_icmp example_env example_net ''10.0.0.2'' =
     ([\<lparr>Metric = ''ping.timeout'', Timestamp = 1400000000, Value = V_int 1,
         Tags = [(''dst_host'', ''10.0.0.2''), (''host'', ''agent'')]\<rparr>], None)"
proof -
  have eval: "c_icmp example_env example_net ''10.0.0.1'' =
     ([\<lparr>Metric = ''ping.rtt'', Timestamp = 1400000000,
         Value = V_float64 (F64_div (F64_of_int 7000000) (F64_of_int 1000000)),
         Tags = [(''dst_host'', ''10.0.0.1''), (''host'', ''agent'')]\<rparr>,
       \<lparr>Metric = ''ping.timeout'', Timestamp = 1400000000, Value = V_int 0,
         Tags = [(''dst_host'', ''10.0.0.1''), (''host'', ''agent'')]\<rparr>], None)"
    "c_icmp example_env example_net ''10.0.0.2'' =
     ([\<lparr>Metric = ''ping.timeout'', Timestamp = 1400000000, Value = V_int 1,
         Tags = [(''dst_host'', ''10.0.0.2''), (''host'', ''agent'')]\<rparr>], None)"
    by (simp_all add: c_icmp_def example_net_def example_env_def icmp_receive_def Add_def
          merge_tags_def default_tags_def time_Second_def time_Millisecond_def)
  show ?thesis
    using c_icmp_success_batch [of example_env example_net "''10.0.0.1''"] eval
    by simp
qed

section \<open>The Windows system collector\<close>

lemma system_windows_rows_panics:
  "(\<exists>msg. system_windows_rows e k dst md = Panics msg) \<longleftrightarrow>
     (\<exists>v\<in>set dst. Frequency_Object v = 0)"
  by (induction dst arbitrary: md) (auto simp: Let_def)

lemma system_windows_rows_panic_message:
  "system_windows_rows e k dst md = Panics msg \<Longrightarrow>
     msg = ''runtime error: integer divide by zero''"
  by (induction dst arbitrary: md) (auto simp: Let_def split: if_splits)

lemma system_windows_rows_returns:
  "\<forall>v\<in>set dst. Frequency_Object v \<noteq> 0 \<Longrightarrow>
   system_windows_rows e k dst md =
     Returns (md @ concat (map (\<lambda>v.
       [\<lparr>Metric = ''win.system.uptime'', Timestamp = Now e,
          Value = V_uint64 ((Timestamp_Object v - SystemUpTime v) div Frequency_Object v),
          Tags = merge_tags e []\<rparr>,
        \<lparr>Metric = ''win.system.processes'', Timestamp = Now e,
          Value = V_uint32 (Processes v), Tags = merge_tags e []\<rparr>,
        \<lparr>Metric = osSystemUptime k, Timestamp = Now e,
          Value = V_uint64 ((Timestamp_Object v - SystemUpTime v) div Frequency_Object v),
          Tags = merge_tags e []\<rparr>]) dst))"
  by (induction dst arbitrary: md) (simp_all add: Let_def Add_no_tags)

lemma unat_sub_wraps:
  fixes a b :: uint64
  shows "unat (a - b) = (if unat b \<le> unat a then unat a - unat b
                          else unat a + 2 ^ 64 - unat b)"
  using unat_sub_if_size [of a b] by (simp add: word_size)

text \<open>
  Claim C8. On the rows of a successful WMI query, \<^verbatim>\<open>c_system_windows\<close> panics with
  an integer division by zero exactly when some row has \<^verbatim>\<open>Frequency_Object\<close> equal to
  0 (nothing guards the division). When no row has, every row yields its three points, and
  the uptime in them is the unsigned 64-bit quotient of
  \<^verbatim>\<open>Timestamp_Object - SystemUpTime\<close> by \<^verbatim>\<open>Frequency_Object\<close>, where the difference
  wraps modulo \<open>2 ^ 64\<close> when \<^verbatim>\<open>SystemUpTime\<close> is the larger.
\<close>

theorem c_system_windows_uptime:
  "(c_system_windows e k (Inr dst) = Panics ''runtime error: integer divide by zero'' \<longleftrightarrow>
      (\<exists>v\<in>set dst. Frequency_Object v = 0)) \<and>
   ((\<forall>v\<in>set dst. Frequency_Object v \<noteq> 0) \<longrightarrow>
      c_system_windows e k (Inr dst) =
        Returns (concat (map (\<lambda>v.
          [\<lparr>Metric = ''win.system.uptime'', Timestamp = Now e,
             Value = V_uint64 ((Timestamp_Object v - SystemUpTime v) div Frequency_Object v),
             Tags = merge_tags e []\<rparr>,
           \<lparr>Metric = ''win.system.processes'', Timestamp = Now e,
             Value = V_uint32 (Processes v), Tags = merge_tags e []\<rparr>,
           \<lparr>Metric = osSystemUptime k, Timestamp = Now e,
             Value = V_uint64 ((Timestamp_Object v - SystemUpTime v) div Frequency_Object v),
             Tags = merge_tags e []\<rparr>]) dst), None)) \<and>
   (\<forall>v\<in>set dst.
      unat ((Timestamp_Object v - SystemUpTime v) div Frequency_Object v) =
        (if unat (SystemUpTime v) \<le> unat (Timestamp_Object v)
         then unat (Timestamp_Object v) - unat (SystemUpTime v)
         else unat (Timestamp_Object v) + 2 ^ 64 - unat (SystemUpTime v))
        div unat (Frequency_Object v))"
proof (intro conjI impI ballI)
  show "c_system_windows e k (Inr dst) = Panics ''runtime error: integer divide by zero'' \<longleftrightarrow>
      (\<exists>v\<in>set dst. Frequency_Object v = 0)"
  proof
    assume "c_system_windows e k (Inr dst) = Panics ''runtime error: integer divide by zero''"
    then have "\<exists>msg. system_windows_rows e k dst [] = Panics msg"
      by (auto simp: c_system_windows_def split: go.splits)
    then show "\<exists>v\<in>set dst. Frequency_Object v = 0"
      by (simp only: system_windows_rows_panics)
  next
    assume "\<exists>v\<in>set dst. Frequency_Object v = 0"
    then obtain msg where m: "system_windows_rows e k dst [] = Panics msg"
      using system_windows_rows_panics [of e k dst "[]"] by blast
    then have "msg = ''runtime error: integer divide by zero''"
      by (rule system_windows_rows_panic_message)
    with m show "c_system_windows e k (Inr dst) = Panics ''runtime error: integer divide by zero''"
      by (simp add: c_system_windows_def)
  qed
next
  assume "\<forall>v\<in>set dst. Frequency_Object v \<noteq> 0"
  then show "c_system_windows e k (Inr dst) =
        Returns (concat (map (\<lambda>v.
          [\<lparr>Metric = ''win.system.uptime'', Timestamp = Now e,
             Value = V_uint64 ((Timestamp_Object v - SystemUpTime v) div Frequency_Object v),
             Tags = merge_tags e []\<rparr>,
           \<lparr>Metric = ''win.system.processes'', Timestamp = Now e,
             Value = V_uint32 (Processes v), Tags = merge_tags e []\<rparr>,
           \<lparr>Metric = osSystemUptime k, Timestamp = Now e,
             Value = V_uint64 ((Timestamp_Object v - SystemUpTime v) div Frequency_Object v),
             Tags = merge_tags e []\<rparr>]) dst), None)"
    by (simp add: c_system_windows_def system_windows_rows_returns)
next
  fix v
  show "unat ((Timestamp_Object v - SystemUpTime v) div Frequency_Object v) =
        (if unat (SystemUpTime v) \<le> unat (Timestamp_Object v)
         then unat (Timestamp_Object v) - unat (SystemUpTime v)
         else unat (Timestamp_Object v) + 2 ^ 64 - unat (SystemUpTime v))
        div unat (Frequency_Object v)"
    by (simp only: unat_div unat_sub_wraps)
qed

theorem c_system_windows_uptime_witness:
  "c_system_windows example_env example_names (Inr example_rows) =
     Returns ([\<lparr>Metric = ''win.system.uptime'', Timestamp = 1400000000,
                 Value = V_uint64 1844674407370955151, Tags = [(''host'', ''agent'')]\<rparr>,
               \<lparr>Metric = ''win.system.processes'', Timestamp = 1400000000,
                 Value = V_uint32 5, Tags = [(''host'', ''agent'')]\<rparr>,
               \<lparr>Metric = ''os.system.uptime'', Timestamp = 1400000000,
                 Value = V_uint64 1844674407370955151, Tags = [(''host'', ''agent'')]\<rparr>], None) \<and>
   unat ((100 - 200 :: uint64) div 10) = (100 + 2 ^ 64 - 200) div 10 \<and>
   c_system_windows example_env example_names
     (Inr (example_rows @ [\<lparr>Frequency_Object = 0, Processes = 1, SystemUpTime = 1,
                             Timestamp_Object = 2\<rparr>])) =
     Panics ''runtime error: integer divide by zero''"
  using c_system_windows_uptime [of example_env example_names example_rows]
    c_system_windows_uptime [of example_env example_names
      "example_rows @ [\<lparr>Frequency_Object = 0, Processes = 1, SystemUpTime = 1,
                             Timestamp_Object = 2\<rparr>]"]
  by (simp add: example_rows_def example_env_def example_names_def merge_tags_def
        default_tags_def)

section \<open>Errors and batches\<close>

text \<open>
  Claim C2. Each of the three collector functions at hand returns the nil batch beside
  a non-nil error: \<^verbatim>\<open>c_icmp\<close> (also when the handler had added a \<^verbatim>\<open>ping.rtt\<close>
  point before the ping run failed), \<^verbatim>\<open>c_vsphere\<close> (also when \<^verbatim>\<open>vsphereHost\<close> or
  \<^verbatim>\<open>vsphereDatastore\<close> had added points before reporting an error) and
  \<^verbatim>\<open>c_system_windows\<close>.
\<close>

theorem collectors_error_nil_batch:
  "(snd (c_icmp e w host) \<noteq> None \<longrightarrow> fst (c_icmp e w host) = []) \<and>
   (snd (c_vsphere e k clean connect user pwd vhost) \<noteq> None \<longrightarrow>
      fst (c_vsphere e k clean connect user pwd vhost) = []) \<and>
   (\<forall>md err. c_system_windows e k wmi = Returns (md, Some err) \<longrightarrow> md = [])"
proof (intro conjI)
  show "snd (c_icmp e w host) \<noteq> None \<longrightarrow> fst (c_icmp e w host) = []"
    by (simp add: c_icmp_def Let_def split: sum.split option.split)
  show "snd (c_vsphere e k clean connect user pwd vhost) \<noteq> None \<longrightarrow>
      fst (c_vsphere e k clean connect user pwd vhost) = []"
    by (simp add: c_vsphere_def Let_def split: sum.split option.split)
  show "\<forall>md err. c_system_windows e k wmi = Returns (md, Some err) \<longrightarrow> md = []"
    by (auto simp: c_system_windows_def split: sum.splits go.splits)
qed

lemmas host_eval =
  vsphereHost_record_def record_name_def mk_prop_def vsphereHost_prop_def xsd_integer_def
  ParseInt_def ParseUint_def digit_val_def bad_integer_def host_mem_derived_def
  host_cpu_derived_def Add_def merge_tags_def default_tags_def example_env_def
  example_names_def Let_def reading_def reading_from_def integer_value_def

theorem collectors_error_nil_batch_witness:
  "fst (foldl (icmp_receive example_env ''10.0.0.9'') ([], 1) [7000000]) \<noteq> [] \<and>
   c_icmp example_env example_net ''10.0.0.9'' =
     ([], Some (Err ''write: network is unreachable'')) \<and>
   vsphereHost example_env example_names (\<lambda>s. s) example_vsphere [] =
     ([\<lparr>Metric = ''os.mem.total'', Timestamp = 1400000000, Value = V_int64 8589934592,
        Tags = [(''host'', ''esx2'')]\<rparr>],
      Some (Err ''vsphere bad integer:%!(EXTRA string=12x)'')) \<and>
   c_vsphere example_env example_names (\<lambda>s. s) (\<lambda>h u p. Inr example_vsphere)
       ''root'' ''secret'' ''vcenter'' =
     ([], Some (Err ''vsphere bad integer:%!(EXTRA string=12x)'')) \<and>
   c_system_windows example_env example_names (Inl (Err ''wmi: access denied'')) =
     Returns ([], Some (Err ''wmi: access denied''))"
proof -
  have host: "vsphereHost example_env example_names (\<lambda>s. s) example_vsphere [] =
     ([\<lparr>Metric = ''os.mem.total'', Timestamp = 1400000000, Value = V_int64 8589934592,
        Tags = [(''host'', ''esx2'')]\<rparr>],
      Some (Err ''vsphere bad integer:%!(EXTRA string=12x)''))"
    by (simp add: vsphereHost_def example_vsphere_def host_eval)
  have vs: "c_vsphere example_env example_names (\<lambda>s. s) (\<lambda>h u p. Inr example_vsphere)
       ''root'' ''secret'' ''vcenter'' =
     ([], Some (Err ''vsphere bad integer:%!(EXTRA string=12x)''))"
    using collectors_error_nil_batch [of example_env example_net "''10.0.0.9''" example_names
        "\<lambda>s. s" "\<lambda>h u p. Inr example_vsphere" "''root''" "''secret''" "''vcenter''"
        "Inl (Err ''wmi: access denied'')"]
    by (simp add: c_vsphere_def host)
  have icmp: "c_icmp example_env example_net ''10.0.0.9'' =
     ([], Some (Err ''write: network is unreachable''))"
    by (simp add: c_icmp_def example_net_def)
  have fold: "fst (foldl (icmp_receive example_env ''10.0.0.9'') ([], 1) [7000000]) \<noteq> []"
    by (simp add: icmp_receive_def Add_def merge_tags_def default_tags_def example_env_def)
  have win: "c_system_windows example_env example_names (Inl (Err ''wmi: access denied'')) =
     Returns ([], Some (Err ''wmi: access denied''))"
    by (simp add: c_system_windows_def)
  from fold icmp host vs win show ?thesis by simp
qed

section \<open>The entry point\<close>

subsection \<open>The configuration file\<close>

lemma readConf_lines_keeps:
  "flagList (snd (readConf_lines w p i ls f)) = flagList f \<and>
   flagPrint (snd (readConf_lines w p i ls f)) = flagPrint f \<and>
   flagVersion (snd (readConf_lines w p i ls f)) = flagVersion f \<and>
   flagDebug (snd (readConf_lines w p i ls f)) = flagDebug f \<and>
   flagJSON (snd (readConf_lines w p i ls f)) = flagJSON f \<and>
   flagDisableMetadata (snd (readConf_lines w p i ls f)) = flagDisableMetadata f \<and>
   flagBatchSize (snd (readConf_lines w p i ls f)) = flagBatchSize f"
  by (induction w p i ls f rule: readConf_lines.induct) (simp_all add: Let_def)

lemma readConf_lines_logs:
  "e \<in> set (fst (readConf_lines w p i ls f)) \<Longrightarrow> \<exists>m. e = Slog_Error m"
proof (induction ls arbitrary: i f)
  case Nil
  then show ?case by simp
next
  case (Cons line ls)
  show ?case
  proof (cases "length (SplitN2 line CHR ''='') \<noteq> 2")
    case True
    with Cons.prems have "e \<in> set (if flagDebug f
        then [Slog_Error (''expected = in '' @ p @ '':'' @ fmt_nat i)] else []) \<or>
        e \<in> set (fst (readConf_lines w p (Suc i) ls f))"
      by (simp add: Let_def)
    then show ?thesis
      using Cons.IH by (auto split: if_splits)
  next
    case False
    with Cons.prems obtain f' where "e \<in> set (fst (readConf_lines w p (Suc i) ls f')) \<or>
        e = Slog_Error (''unknown key in '' @ p @ '':'' @ fmt_nat i)"
      by (simp add: Let_def split: if_splits) blast+
    then show ?thesis
      using Cons.IH by auto
  qed
qed

lemma readConf_snd:
  "snd (readConf w f) = f \<or> (\<exists>p i ls. snd (readConf w f) = snd (readConf_lines w p i ls f))"
  by (simp add: readConf_def Let_def split: sum.split) blast

lemma readConf_keeps [simp]:
  "flagList (snd (readConf w f)) = flagList f"
  "flagPrint (snd (readConf w f)) = flagPrint f"
  "flagVersion (snd (readConf w f)) = flagVersion f"
  "flagDebug (snd (readConf w f)) = flagDebug f"
  "flagJSON (snd (readConf w f)) = flagJSON f"
  "flagDisableMetadata (snd (readConf w f)) = flagDisableMetadata f"
  "flagBatchSize (snd (readConf w f)) = flagBatchSize f"
  using readConf_snd [of w f] readConf_lines_keeps [of w _ _ _ f]
  by auto

lemma readConf_logs:
  "e \<in> set (fst (readConf w f)) \<Longrightarrow> \<exists>m. e = Slog_Error m"
proof (cases "exePath w")
  case (Inl err)
  then show "e \<in> set (fst (readConf w f)) \<Longrightarrow> \<exists>m. e = Slog_Error m"
    by (simp add: readConf_def)
next
  case (Inr p0)
  assume e: "e \<in> set (fst (readConf w f))"
  show "\<exists>m. e = Slog_Error m"
  proof (cases "ioutil_ReadFile w (filepath_Join w (filepath_Dir w p0) ''scollector.conf'')")
    case (Inl err)
    with Inr e show ?thesis
      by (simp add: readConf_def Let_def split: if_splits)
  next
    case (Inr b)
    with \<open>exePath w = Inr p0\<close> e show ?thesis
      by (auto simp: readConf_def Let_def dest: readConf_lines_logs)
  qed
qed

subsection \<open>The shape of the trace\<close>

lemmas configured_defs = configured_def startup_def run_phase_def network_delivery_def
  local_delivery_def list_def

lemma configured_run_form:
  assumes "register w f = Inr reg" and "\<not> flagList f"
    and "snd (snd (parseHost w (flagHost f))) = None"
    and "flagDisableMetadata f \<or>
         metadata_Init w (fst (snd (parseHost w (flagHost f)))) (flagDebug f) = None"
  shows "configured w f =
     map (\<lambda>col. Init (Collector_name col) (Collector_init col)) (Search (flagFilter f) reg) @
     ((if flagDisableMetadata f then [] else [Metadata_Init]) @
      (if flagPrint f
       then [Set_DefaultFreq 3000000000, Infoln [''Set default frequency to'', ''3s'']]
       else [])) @
     Collectors_Run (Search (flagFilter f) reg) #
     (if fst (snd (parseHost w (flagHost f))) \<noteq> None \<and> \<not> flagPrint f
      then network_delivery w f (fst (snd (parseHost w (flagHost f))))
      else local_delivery w)"
  using assms
  by (auto simp: configured_def startup_def run_phase_def Let_def time_Second_def
        time_Millisecond_def)

lemma Collectors_Run_configured:
  "Collectors_Run c \<in> set (configured w f) \<Longrightarrow>
     \<exists>reg. register w f = Inr reg \<and> c = Search (flagFilter f) reg \<and> \<not> flagList f \<and>
       snd (snd (parseHost w (flagHost f))) = None \<and>
       (flagDisableMetadata f \<or>
        metadata_Init w (fst (snd (parseHost w (flagHost f)))) (flagDebug f) = None)"
  by (auto simp: configured_defs Let_def split: if_splits sum.splits option.splits)

lemma Go_watchdog_configured:
  "Go_watchdog \<in> set (configured w f) \<longleftrightarrow>
     (\<exists>reg. register w f = Inr reg) \<and> \<not> flagList f \<and>
     snd (snd (parseHost w (flagHost f))) = None \<and>
     fst (snd (parseHost w (flagHost f))) \<noteq> None \<and>
     (flagDisableMetadata f \<or>
      metadata_Init w (fst (snd (parseHost w (flagHost f)))) (flagDebug f) = None) \<and>
     \<not> flagPrint f \<and>
     collect_InitChan w (fst (snd (parseHost w (flagHost f)))) = None"
  by (auto simp: configured_defs Let_def split: if_splits sum.splits option.splits)

lemma PrintPut_configured:
  "PrintPut \<in> set (configured w f) \<longleftrightarrow>
     (\<exists>reg. register w f = Inr reg) \<and> \<not> flagList f \<and>
     snd (snd (parseHost w (flagHost f))) = None \<and>
     (flagDisableMetadata f \<or>
      metadata_Init w (fst (snd (parseHost w (flagHost f)))) (flagDebug f) = None) \<and>
     (fst (snd (parseHost w (flagHost f))) = None \<or> flagPrint f)"
  by (auto simp: configured_defs Let_def split: if_splits sum.splits option.splits)

lemma InitChan_configured:
  "InitChan \<in> set (configured w f) \<longleftrightarrow>
     (\<exists>reg. register w f = Inr reg) \<and> \<not> flagList f \<and>
     snd (snd (parseHost w (flagHost f))) = None \<and>
     fst (snd (parseHost w (flagHost f))) \<noteq> None \<and>
     (flagDisableMetadata f \<or>
      metadata_Init w (fst (snd (parseHost w (flagHost f)))) (flagDebug f) = None) \<and>
     \<not> flagPrint f"
  by (auto simp: configured_defs Let_def split: if_splits sum.splits option.splits)

lemma Select_forever_configured:
  "Select_forever \<in> set (configured w f) \<longleftrightarrow>
     Go_watchdog \<in> set (configured w f) \<or> (PrintPut \<in> set (configured w f) \<and> cdp_closed w)"
  by (auto simp: configured_defs Let_def split: if_splits sum.splits option.splits)

lemma last_configured_without_host:
  assumes "snd (snd (parseHost w (flagHost f))) \<noteq> None"
  shows "last (configured w f) =
     (case register w f of
        Inl args \<Rightarrow> Fatal args
      | Inr reg \<Rightarrow>
          if flagList f then Return
          else Fatal [''invalid host:'', fst (parseHost w (flagHost f))])"
  using assms
  by (auto simp: configured_defs Let_def split: if_splits sum.splits option.splits)

lemma configured_not_empty: "configured w f \<noteq> []"
  by (auto simp: configured_defs Let_def split: if_splits sum.splits option.splits)

text \<open>
  Membership in the trace of \<^verbatim>\<open>main\<close>, for the events that neither the first lines
  of \<^verbatim>\<open>main\<close> nor \<^verbatim>\<open>readConf\<close> produce.
\<close>

lemma in_main:
  assumes "\<And>m. e \<noteq> Slog_Error m" and "e \<noteq> Slog_Set_stdout"
    and "\<And>n s. e \<noteq> Print_version n s" and "e \<noteq> Exit 0"
  shows "e \<in> set (main w f) \<longleftrightarrow> \<not> flagVersion f \<and> e \<in> set (configured w (snd (readConf w f)))"
  using assms readConf_logs [of e w f]
  by (auto simp: main_def)

lemma parseHost_error:
  "snd (snd (parseHost w h)) \<noteq> None \<longleftrightarrow>
     h = [] \<or> snd (url_Parse w (if \<not> Contains h ''//'' then ''http://'' @ h else h)) \<noteq> None"
  by (simp add: parseHost_def Let_def)



lemma Go_watchdog_in_main:
  "Go_watchdog \<in> set (main w f) \<longleftrightarrow>
      \<not> flagVersion f \<and> (\<exists>reg. register w (snd (readConf w f)) = Inr reg) \<and> \<not> flagList f \<and>
      snd (snd (parseHost w (flagHost (snd (readConf w f))))) = None \<and>
      fst (snd (parseHost w (flagHost (snd (readConf w f))))) \<noteq> None \<and>
      (flagDisableMetadata f \<or>
       metadata_Init w (fst (snd (parseHost w (flagHost (snd (readConf w f)))))) (flagDebug f)
         = None) \<and>
      \<not> flagPrint f \<and>
      collect_InitChan w (fst (snd (parseHost w (flagHost (snd (readConf w f)))))) = None"
  by (simp add: in_main Go_watchdog_configured)

lemma PrintPut_in_main:
  "PrintPut \<in> set (main w f) \<longleftrightarrow>
      \<not> flagVersion f \<and> (\<exists>reg. register w (snd (readConf w f)) = Inr reg) \<and> \<not> flagList f \<and>
      snd (snd (parseHost w (flagHost (snd (readConf w f))))) = None \<and>
      (flagDisableMetadata f \<or>
       metadata_Init w (fst (snd (parseHost w (flagHost (snd (readConf w f)))))) (flagDebug f)
         = None) \<and>
      (fst (snd (parseHost w (flagHost (snd (readConf w f))))) = None \<or> flagPrint f)"
  by (simp add: in_main PrintPut_configured)

lemma InitChan_in_main:
  "InitChan \<in> set (main w f) \<longleftrightarrow>
      \<not> flagVersion f \<and> (\<exists>reg. register w (snd (readConf w f)) = Inr reg) \<and> \<not> flagList f \<and>
      snd (snd (parseHost w (flagHost (snd (readConf w f))))) = None \<and>
      fst (snd (parseHost w (flagHost (snd (readConf w f))))) \<noteq> None \<and>
      (flagDisableMetadata f \<or>
       metadata_Init w (fst (snd (parseHost w (flagHost (snd (readConf w f)))))) (flagDebug f)
         = None) \<and>
      \<not> flagPrint f"
  by (simp add: in_main InitChan_configured)

lemma Select_forever_in_main:
  "Select_forever \<in> set (main w f) \<longleftrightarrow>
     Go_watchdog \<in> set (main w f) \<or> (PrintPut \<in> set (main w f) \<and> cdp_closed w)"
  by (auto simp: in_main Select_forever_configured)

lemma Collectors_Run_reached:
  "Collectors_Run c \<in> set (main w f) \<Longrightarrow>
     \<not> flagVersion f \<and> \<not> flagList f \<and>
     snd (snd (parseHost w (flagHost (snd (readConf w f))))) = None"
  using Collectors_Run_configured [of c w "snd (readConf w f)"]
  by (auto simp: in_main)

lemma network_form:
  assumes "Go_watchdog \<in> set (main w f)"
  shows "\<exists>pre c mid1 mid2.
     main w f = pre @ Collectors_Run c # mid1 @ InitChan # mid2 @ [Go_watchdog, Select_forever] \<and>
     Go_watchdog \<notin> set pre \<union> set mid1 \<union> set mid2"
proof -
  let ?f = "snd (readConf w f)"
  let ?u = "fst (snd (parseHost w (flagHost ?f)))"
  from assms have cond: "\<not> flagVersion f" "\<not> flagList f"
    "snd (snd (parseHost w (flagHost ?f))) = None" "?u \<noteq> None"
    "flagDisableMetadata f \<or> metadata_Init w ?u (flagDebug f) = None"
    "\<not> flagPrint f" "collect_InitChan w ?u = None"
    and "\<exists>reg. register w ?f = Inr reg"
    by (simp_all add: Go_watchdog_in_main)
  then obtain reg where reg: "register w ?f = Inr reg"
    by blast
  let ?c = "Search (flagFilter ?f) reg"
  let ?pre = "fst (readConf w f) @
      map (\<lambda>col. Init (Collector_name col) (Collector_init col)) ?c @
      (if flagDisableMetadata f then [] else [Metadata_Init])"
  let ?mid1 = "[Infoln [''OpenTSDB host:'', (case ?u of None \<Rightarrow> [] | Some a \<Rightarrow> a)]]"
  let ?mid2 = "(if VersionDate w > 0
           then Put_version #
                (case collect_Put_version w of
                   Some err \<Rightarrow> [Slog_Error (error_message err)]
                 | None \<Rightarrow> [])
           else []) @
          (if flagBatchSize f > 0 then [Set_BatchSize (flagBatchSize f)] else [])"
  have "configured w ?f =
      map (\<lambda>col. Init (Collector_name col) (Collector_init col)) ?c @
      (if flagDisableMetadata f then [] else [Metadata_Init]) @
      Collectors_Run ?c # network_delivery w ?f ?u"
    using configured_run_form [of w ?f reg] reg cond by simp
  then have form: "main w f =
      ?pre @ Collectors_Run ?c # ?mid1 @ InitChan # ?mid2 @ [Go_watchdog, Select_forever]"
    using cond by (simp add: main_def network_delivery_def)
  have "Go_watchdog \<notin> set ?pre \<union> set ?mid1 \<union> set ?mid2"
    using readConf_logs [of Go_watchdog w f] by (auto split: option.splits)
  with form show ?thesis
    by blast
qed

lemma local_form:
  assumes "PrintPut \<in> set (main w f)"
  shows "\<exists>pre c.
     main w f =
       pre @ [Collectors_Run c, Infoln [''Outputting to screen''], PrintPut] @
       (if cdp_closed w then [Select_forever] else [])"
proof -
  let ?f = "snd (readConf w f)"
  let ?u = "fst (snd (parseHost w (flagHost ?f)))"
  from assms have cond: "\<not> flagVersion f" "\<not> flagList f"
    "snd (snd (parseHost w (flagHost ?f))) = None"
    "flagDisableMetadata f \<or> metadata_Init w ?u (flagDebug f) = None"
    "?u = None \<or> flagPrint f"
    and "\<exists>reg. register w ?f = Inr reg"
    by (simp_all add: PrintPut_in_main)
  then obtain reg where reg: "register w ?f = Inr reg"
    by blast
  let ?c = "Search (flagFilter ?f) reg"
  let ?pre = "(if flagPrint f then [Slog_Set_stdout] else []) @ fst (readConf w f) @
      map (\<lambda>col. Init (Collector_name col) (Collector_init col)) ?c @
      (if flagDisableMetadata f then [] else [Metadata_Init]) @
      (if flagPrint f
       then [Set_DefaultFreq 3000000000, Infoln [''Set default frequency to'', ''3s'']]
       else [])"
  have "configured w ?f =
      map (\<lambda>col. Init (Collector_name col) (Collector_init col)) ?c @
      ((if flagDisableMetadata f then [] else [Metadata_Init]) @
       (if flagPrint f
        then [Set_DefaultFreq 3000000000, Infoln [''Set default frequency to'', ''3s'']]
        else [])) @
      Collectors_Run ?c # local_delivery w"
    using configured_run_form [of w ?f reg] reg cond by auto
  then have "main w f =
      ?pre @ [Collectors_Run ?c, Infoln [''Outputting to screen''], PrintPut] @
      (if cdp_closed w then [Select_forever] else [])"
    using cond by (simp add: main_def local_delivery_def)
  then show ?thesis
    by blast
qed

lemma watchdog_from_Watching:
  "watchdog_from n ms = Watching \<longleftrightarrow> (\<forall>m\<in>set ms. m \<le> maxMem)"
  by (induction ms arbitrary: n) auto

lemma watchdog_Watching:
  "watchdog readings \<noteq> Watching \<longleftrightarrow> (\<exists>m\<in>set readings. maxMem < m)"
  by (simp add: watchdog_def watchdog_from_Watching not_le)

lemmas example_defs =
  main_def configured_defs Let_def register_def Search_def parseHost_def readConf_def
  exePath_def example_world_def example_flags_def

subsection \<open>Initialisation hooks\<close>




subsection \<open>Where the watchdog runs\<close>

text \<open>
  Claim C4, as the code has it. The watchdog goroutine is started only on the network
  branch of \<^verbatim>\<open>main\<close>: the start-up checks passed, the endpoint parsed to a non-nil URL,
  the print flag is off and \<^verbatim>\<open>collect.InitChan\<close> succeeded. It is then started once,
  after the scheduler and after the sender, as the last thing before \<^verbatim>\<open>select {}\<close>,
  and it ends the process exactly when some reading is above the ceiling. A run that hands
  the pipeline to \<^verbatim>\<open>printPut\<close>, and any run with the print flag set, starts no
  watchdog, and no reading makes the watchdog end such a process.
\<close>

theorem watchdog_network_mode_only:
  "(Go_watchdog \<in> set (main w f) \<longleftrightarrow>
      \<not> flagVersion f \<and> (\<exists>reg. register w (snd (readConf w f)) = Inr reg) \<and> \<not> flagList f \<and>
      snd (snd (parseHost w (flagHost (snd (readConf w f))))) = None \<and>
      fst (snd (parseHost w (flagHost (snd (readConf w f))))) \<noteq> None \<and>
      (flagDisableMetadata f \<or>
       metadata_Init w (fst (snd (parseHost w (flagHost (snd (readConf w f)))))) (flagDebug f)
         = None) \<and>
      \<not> flagPrint f \<and>
      collect_InitChan w (fst (snd (parseHost w (flagHost (snd (readConf w f)))))) = None) \<and>
   (Go_watchdog \<in> set (main w f) \<longrightarrow>
      (\<exists>pre c mid1 mid2.
         main w f =
           pre @ Collectors_Run c # mid1 @ InitChan # mid2 @ [Go_watchdog, Select_forever] \<and>
         Go_watchdog \<notin> set pre \<union> set mid1 \<union> set mid2)) \<and>
   (ended_by_watchdog w f readings \<longleftrightarrow>
      Go_watchdog \<in> set (main w f) \<and> (\<exists>m\<in>set readings. maxMem < m)) \<and>
   (PrintPut \<in> set (main w f) \<longrightarrow>
      Go_watchdog \<notin> set (main w f) \<and> \<not> ended_by_watchdog w f readings) \<and>
   (flagPrint f \<longrightarrow> Go_watchdog \<notin> set (main w f) \<and> \<not> ended_by_watchdog w f readings)"
proof (intro conjI impI)
  show "Go_watchdog \<in> set (main w f) \<longleftrightarrow>
      \<not> flagVersion f \<and> (\<exists>reg. register w (snd (readConf w f)) = Inr reg) \<and> \<not> flagList f \<and>
      snd (snd (parseHost w (flagHost (snd (readConf w f))))) = None \<and>
      fst (snd (parseHost w (flagHost (snd (readConf w f))))) \<noteq> None \<and>
      (flagDisableMetadata f \<or>
       metadata_Init w (fst (snd (parseHost w (flagHost (snd (readConf w f)))))) (flagDebug f)
         = None) \<and>
      \<not> flagPrint f \<and>
      collect_InitChan w (fst (snd (parseHost w (flagHost (snd (readConf w f)))))) = None"
    by (rule Go_watchdog_in_main)
  show "\<exists>pre c mid1 mid2.
         main w f =
           pre @ Collectors_Run c # mid1 @ InitChan # mid2 @ [Go_watchdog, Select_forever] \<and>
         Go_watchdog \<notin> set pre \<union> set mid1 \<union> set mid2"
    if "Go_watchdog \<in> set (main w f)"
    using that by (rule network_form)
  show "ended_by_watchdog w f readings \<longleftrightarrow>
      Go_watchdog \<in> set (main w f) \<and> (\<exists>m\<in>set readings. maxMem < m)"
    by (simp add: ended_by_watchdog_def watchdog_Watching)
  show "Go_watchdog \<notin> set (main w f)" if "PrintPut \<in> set (main w f)"
    using that by (auto simp: PrintPut_in_main Go_watchdog_in_main)
  then show "\<not> ended_by_watchdog w f readings" if "PrintPut \<in> set (main w f)"
    using that by (simp add: ended_by_watchdog_def)
  show "Go_watchdog \<notin> set (main w f)" if "flagPrint f"
    using that by (simp add: Go_watchdog_in_main)
  then show "\<not> ended_by_watchdog w f readings" if "flagPrint f"
    using that by (simp add: ended_by_watchdog_def)
qed

theorem watchdog_network_mode_only_witness:
  "main example_world (example_flags\<lparr>flagBatchSize := 50\<rparr>) =
     [Init ''c_cpu'' (Some (Err ''no counters'')), Init ''c_mem'' None, Metadata_Init,
      Collectors_Run
        [\<lparr>Collector_name = ''c_cpu'', Collector_init = Some (Err ''no counters'')\<rparr>,
         \<lparr>Collector_name = ''c_mem'', Collector_init = None\<rparr>],
      Infoln [''OpenTSDB host:'', ''http://bosun''], InitChan, Set_BatchSize 50,
      Go_watchdog, Select_forever] \<and>
   ended_by_watchdog example_world (example_flags\<lparr>flagBatchSize := 50\<rparr>) [1, 524288001] \<and>
   \<not> ended_by_watchdog example_world (example_flags\<lparr>flagBatchSize := 50\<rparr>) [1, 524288000] \<and>
   PrintPut \<in> set (main example_world (example_flags\<lparr>flagPrint := True, flagJSON := True\<rparr>)) \<and>
   Go_watchdog \<notin> set (main example_world (example_flags\<lparr>flagPrint := True, flagJSON := True\<rparr>))"
proof -
  have trace: "main example_world (example_flags\<lparr>flagBatchSize := 50\<rparr>) =
     [Init ''c_cpu'' (Some (Err ''no counters'')), Init ''c_mem'' None, Metadata_Init,
      Collectors_Run
        [\<lparr>Collector_name = ''c_cpu'', Collector_init = Some (Err ''no counters'')\<rparr>,
         \<lparr>Collector_name = ''c_mem'', Collector_init = None\<rparr>],
      Infoln [''OpenTSDB host:'', ''http://bosun''], InitChan, Set_BatchSize 50,
      Go_watchdog, Select_forever]"
    by (simp add: example_defs)
  have print: "PrintPut \<in> set (main example_world
      (example_flags\<lparr>flagPrint := True, flagJSON := True\<rparr>))"
    by (simp add: example_defs)
  show ?thesis
    using watchdog_network_mode_only [where w = example_world
        and f = "example_flags\<lparr>flagBatchSize := 50\<rparr>" and readings = "[1, 524288001]"]
      watchdog_network_mode_only [where w = example_world
        and f = "example_flags\<lparr>flagBatchSize := 50\<rparr>" and readings = "[1, 524288000]"]
      watchdog_network_mode_only [where w = example_world
        and f = "example_flags\<lparr>flagPrint := True, flagJSON := True\<rparr>" and readings = "[]"]
      trace print
    by (simp add: maxMem_def)
qed

text \<open>
  Against claim C4 as stated: with the print flag set the process runs (the scheduler
  is started and the pipeline is handed to \<^verbatim>\<open>printPut\<close>), no watchdog is started, and
  a reading above the ceiling does not end the process.
\<close>

theorem watchdog_network_mode_only_counterexample:
  "main example_world (example_flags\<lparr>flagPrint := True\<rparr>) =
     [Slog_Set_stdout, Init ''c_cpu'' (Some (Err ''no counters'')), Init ''c_mem'' None,
      Metadata_Init,
      Set_DefaultFreq 3000000000, Infoln [''Set default frequency to'', ''3s''],
      Collectors_Run
        [\<lparr>Collector_name = ''c_cpu'', Collector_init = Some (Err ''no counters'')\<rparr>,
         \<lparr>Collector_name = ''c_mem'', Collector_init = None\<rparr>],
      Infoln [''Outputting to screen''], PrintPut] \<and>
   \<not> ended_by_watchdog example_world (example_flags\<lparr>flagPrint := True\<rparr>) [524288001]"
  by (simp add: ended_by_watchdog_def example_defs time_Second_def time_Millisecond_def)

subsection \<open>A rejected endpoint address\<close>

text \<open>
  Claim C5, as the code has it. When \<^verbatim>\<open>parseHost\<close> rejects the endpoint address
  that \<^verbatim>\<open>readConf\<close> has left in the flag (it is empty, or \<^verbatim>\<open>url.Parse\<close> fails on
  it once \<^verbatim>\<open>http://\<close> has been put in front of an address without \<^verbatim>\<open>//\<close>), the
  process ends during start-up: no scheduler, sender, watchdog or local sink is started.
  It ends with the fatal error \<^verbatim>\<open>invalid host:\<close> unless an earlier exit applies: the
  version flag (exit 0), a malformed \<^verbatim>\<open>-s\<close> or \<^verbatim>\<open>-v\<close> string (its own fatal
  error), or the list flag (the listing, then a normal return).
\<close>

theorem rejected_host_terminates:
  assumes "flagHost (snd (readConf w f)) = [] \<or>
           snd (url_Parse w (if \<not> Contains (flagHost (snd (readConf w f))) ''//''
                             then ''http://'' @ flagHost (snd (readConf w f))
                             else flagHost (snd (readConf w f)))) \<noteq> None"
  shows "(\<forall>c. Collectors_Run c \<notin> set (main w f)) \<and>
         InitChan \<notin> set (main w f) \<and> Go_watchdog \<notin> set (main w f) \<and>
         PrintPut \<notin> set (main w f) \<and> Select_forever \<notin> set (main w f) \<and>
         last (main w f) =
           (if flagVersion f then Exit 0
            else case register w (snd (readConf w f)) of
                   Inl args \<Rightarrow> Fatal args
                 | Inr reg \<Rightarrow>
                     if flagList f then Return
                     else Fatal [''invalid host:'',
                                 if flagHost (snd (readConf w f)) = [] \<or>
                                    Contains (flagHost (snd (readConf w f))) ''//''
                                 then flagHost (snd (readConf w f))
                                 else ''http://'' @ flagHost (snd (readConf w f))])"
proof -
  let ?f = "snd (readConf w f)"
  from assms have err: "snd (snd (parseHost w (flagHost ?f))) \<noteq> None"
    by (simp only: parseHost_error)
  have host: "fst (parseHost w (flagHost ?f)) =
      (if flagHost ?f = [] \<or> Contains (flagHost ?f) ''//'' then flagHost ?f
       else ''http://'' @ flagHost ?f)"
    by (simp add: parseHost_def Let_def)
  have run: "Collectors_Run c \<notin> set (main w f)" for c
    using err Collectors_Run_reached [of c w f] by auto
  have rest: "InitChan \<notin> set (main w f)" "Go_watchdog \<notin> set (main w f)"
    "PrintPut \<notin> set (main w f)" "Select_forever \<notin> set (main w f)"
    using err
    by (simp_all add: InitChan_in_main Go_watchdog_in_main PrintPut_in_main
          Select_forever_in_main)
  have "last (main w f) = (if flagVersion f then Exit 0 else last (configured w ?f))"
    by (simp add: main_def configured_not_empty)
  then have last: "last (main w f) =
      (if flagVersion f then Exit 0
       else case register w ?f of
              Inl args \<Rightarrow> Fatal args
            | Inr reg \<Rightarrow>
                if flagList f then Return
                else Fatal [''invalid host:'',
                            if flagHost ?f = [] \<or> Contains (flagHost ?f) ''//''
                            then flagHost ?f else ''http://'' @ flagHost ?f])"
    using last_configured_without_host [OF err, unfolded host] by simp
  show ?thesis
    using run rest last by simp
qed

theorem rejected_host_terminates_witness:
  "flagHost (snd (readConf example_world (example_flags\<lparr>flagHost := []\<rparr>))) = [] \<and>
   Go_watchdog \<notin> set (main example_world (example_flags\<lparr>flagHost := []\<rparr>)) \<and>
   last (main example_world (example_flags\<lparr>flagHost := []\<rparr>)) = Fatal [''invalid host:'', []]"
proof -
  have conf: "readConf example_world (example_flags\<lparr>flagHost := []\<rparr>) =
      ([], example_flags\<lparr>flagHost := []\<rparr>)"
    by (simp add: readConf_def exePath_def example_world_def example_flags_def)
  have reg: "register example_world (example_flags\<lparr>flagHost := []\<rparr>) =
      Inr [\<lparr>Collector_name = ''c_cpu'', Collector_init = Some (Err ''no counters'')\<rparr>,
           \<lparr>Collector_name = ''c_mem'', Collector_init = None\<rparr>]"
    by (simp add: register_def example_world_def example_flags_def)
  have flags: "\<not> flagVersion (example_flags\<lparr>flagHost := []\<rparr>)"
    "\<not> flagList (example_flags\<lparr>flagHost := []\<rparr>)"
    by (simp_all add: example_flags_def)
  show ?thesis
    using rejected_host_terminates [where f = "example_flags\<lparr>flagHost := []\<rparr>"
        and w = example_world]
    by (simp add: conf reg flags)
qed

text \<open>
  Against claim C5 as stated: with the list flag set, an empty endpoint address leads
  to the listing and a normal return, not to a fatal error.
\<close>

theorem rejected_host_terminates_counterexample:
  "snd (snd (parseHost example_world [])) = Some (Err ''empty host'') \<and>
   main example_world (example_flags\<lparr>flagHost := [], flagList := True\<rparr>) =
     [Init ''c_cpu'' (Some (Err ''no counters'')), Init ''c_mem'' None,
      Println ''c_cpu'', Println ''c_mem'', Return]"
  by (simp add: example_defs)

subsection \<open>Listing\<close>

text \<open>
  Claim C7, as the code has it. With the list flag set, no scheduler, sender, watchdog
  or local sink is ever started. When moreover the version flag is not set and the
  registrations asked for by the flags succeed, \<^verbatim>\<open>main\<close> does this and nothing else:
  it logs what \<^verbatim>\<open>readConf\<close> has to report (error lines only), runs the
  initialisation hook of every collector selected by the filter that \<^verbatim>\<open>readConf\<close>
  has left, prints the name of every selected collector, one per line and in registry
  order, and returns.
\<close>

theorem list_mode:
  assumes "flagList f"
  shows "(\<forall>c. Collectors_Run c \<notin> set (main w f)) \<and>
         InitChan \<notin> set (main w f) \<and> Go_watchdog \<notin> set (main w f) \<and>
         PrintPut \<notin> set (main w f) \<and> Select_forever \<notin> set (main w f) \<and>
         (\<forall>e\<in>set (fst (readConf w f)). \<exists>m. e = Slog_Error m) \<and>
         (\<forall>reg. \<not> flagVersion f \<and> register w (snd (readConf w f)) = Inr reg \<longrightarrow>
            main w f =
              (if flagPrint f then [Slog_Set_stdout] else []) @
              fst (readConf w f) @
              map (\<lambda>c. Init (Collector_name c) (Collector_init c))
                (filter (\<lambda>c. Contains (Collector_name c) (flagFilter (snd (readConf w f)))) reg) @
              map (\<lambda>c. Println (Collector_name c))
                (filter (\<lambda>c. Contains (Collector_name c) (flagFilter (snd (readConf w f)))) reg) @
              [Return])"
proof -
  have run: "Collectors_Run c \<notin> set (main w f)" for c
    using assms Collectors_Run_reached [of c w f] by blast
  have rest: "InitChan \<notin> set (main w f)" "Go_watchdog \<notin> set (main w f)"
    "PrintPut \<notin> set (main w f)" "Select_forever \<notin> set (main w f)"
    using assms
    by (simp_all add: InitChan_in_main Go_watchdog_in_main PrintPut_in_main
          Select_forever_in_main)
  have logs: "\<forall>e\<in>set (fst (readConf w f)). \<exists>m. e = Slog_Error m"
    using readConf_logs [of _ w f] by blast
  show ?thesis
    using run rest logs assms
    by (simp add: main_def configured_def startup_def list_def Search_def Let_def)
qed

theorem list_mode_witness:
  "flagList (example_flags\<lparr>flagList := True, flagDebug := True\<rparr>) \<and>
   main conf_world (example_flags\<lparr>flagList := True, flagDebug := True\<rparr>) =
     [Slog_Error ''expected = in /opt/scollector.conf:2'',
      Init ''c_mem'' None, Println ''c_mem'', Return]"
proof -
  have conf: "readConf conf_world (example_flags\<lparr>flagList := True, flagDebug := True\<rparr>) =
      ([Slog_Error ''expected = in /opt/scollector.conf:2''],
       example_flags\<lparr>flagList := True, flagDebug := True, flagFilter := ''mem''\<rparr>)"
    by (simp add: readConf_def exePath_def conf_world_def example_world_def example_flags_def
          SplitN2_def fmt_nat.simps Let_def)
  have reg: "register conf_world
        (example_flags\<lparr>flagList := True, flagDebug := True, flagFilter := ''mem''\<rparr>) =
      Inr [\<lparr>Collector_name = ''c_cpu'', Collector_init = Some (Err ''no counters'')\<rparr>,
           \<lparr>Collector_name = ''c_mem'', Collector_init = None\<rparr>]"
    by (simp add: register_def conf_world_def example_world_def example_flags_def)
  have flags: "\<not> flagVersion (example_flags\<lparr>flagList := True, flagDebug := True\<rparr>)"
    "\<not> flagPrint (example_flags\<lparr>flagList := True, flagDebug := True\<rparr>)"
    by (simp_all add: example_flags_def)
  show ?thesis
    using list_mode [where f = "example_flags\<lparr>flagList := True, flagDebug := True\<rparr>"
        and w = conf_world]
    by (simp add: conf reg flags)
qed

text \<open>
  Against claim C7 as stated: with the list flag and the version flag both set, two
  collectors are selected and the program prints the version line only.
\<close>

theorem list_mode_counterexample:
  "register example_world (example_flags\<lparr>flagList := True, flagVersion := True\<rparr>) =
     Inr [\<lparr>Collector_name = ''c_cpu'', Collector_init = Some (Err ''no counters'')\<rparr>,
          \<lparr>Collector_name = ''c_mem'', Collector_init = None\<rparr>] \<and>
   Search (flagFilter (example_flags\<lparr>flagList := True, flagVersion := True\<rparr>))
     [\<lparr>Collector_name = ''c_cpu'', Collector_init = Some (Err ''no counters'')\<rparr>,
      \<lparr>Collector_name = ''c_mem'', Collector_init = None\<rparr>] =
     [\<lparr>Collector_name = ''c_cpu'', Collector_init = Some (Err ''no counters'')\<rparr>,
      \<lparr>Collector_name = ''c_mem'', Collector_init = None\<rparr>] \<and>
   main example_world (example_flags\<lparr>flagList := True, flagVersion := True\<rparr>) =
     [Print_version 0 [], Exit 0]"
  by (simp add: example_defs)

subsection \<open>The local sink\<close>

text \<open>
  Claim C6. \<^verbatim>\<open>main\<close> hands the channel of the scheduler to \<^verbatim>\<open>printPut\<close> exactly
  when it gets past its start-up checks and the print flag is set or there is no
  endpoint URL; it does so right after starting the scheduler, and starts no sender.
  \<^verbatim>\<open>printPut\<close> writes one record per point it receives, in order: the JSON encoding
  of that very point when the JSON flag is set, and otherwise the line made of its
  metric, its timestamp, its value and its tags as \<^verbatim>\<open>key=value\<close>, separated by single
  spaces.
\<close>

theorem printPut_records:
  "(PrintPut \<in> set (main w f) \<longleftrightarrow>
      \<not> flagVersion f \<and> (\<exists>reg. register w (snd (readConf w f)) = Inr reg) \<and> \<not> flagList f \<and>
      snd (snd (parseHost w (flagHost (snd (readConf w f))))) = None \<and>
      (flagDisableMetadata f \<or>
       metadata_Init w (fst (snd (parseHost w (flagHost (snd (readConf w f)))))) (flagDebug f)
         = None) \<and>
      (fst (snd (parseHost w (flagHost (snd (readConf w f))))) = None \<or> flagPrint f)) \<and>
   (PrintPut \<in> set (main w f) \<longrightarrow>
      InitChan \<notin> set (main w f) \<and>
      (\<exists>pre c.
         main w f =
           pre @ [Collectors_Run c, Infoln [''Outputting to screen''], PrintPut] @
           (if cdp_closed w then [Select_forever] else []))) \<and>
   length (printPut f marshal fmt_v c) = length c \<and>
   (\<forall>i<length c.
      printPut f marshal fmt_v c ! i =
        (if flagJSON f then fst (marshal (c ! i))
         else Metric (c ! i) @ '' '' @ fmt_int (Timestamp (c ! i)) @ '' '' @
              fmt_v (Value (c ! i)) @
              concat (map (\<lambda>kv. '' '' @ fst kv @ ''='' @ snd kv) (Tags (c ! i)))))"
proof (intro conjI)
  show "PrintPut \<in> set (main w f) \<longleftrightarrow>
      \<not> flagVersion f \<and> (\<exists>reg. register w (snd (readConf w f)) = Inr reg) \<and> \<not> flagList f \<and>
      snd (snd (parseHost w (flagHost (snd (readConf w f))))) = None \<and>
      (flagDisableMetadata f \<or>
       metadata_Init w (fst (snd (parseHost w (flagHost (snd (readConf w f)))))) (flagDebug f)
         = None) \<and>
      (fst (snd (parseHost w (flagHost (snd (readConf w f))))) = None \<or> flagPrint f)"
    by (rule PrintPut_in_main)
  show "PrintPut \<in> set (main w f) \<longrightarrow>
      InitChan \<notin> set (main w f) \<and>
      (\<exists>pre c.
         main w f =
           pre @ [Collectors_Run c, Infoln [''Outputting to screen''], PrintPut] @
           (if cdp_closed w then [Select_forever] else []))"
    using local_form [of w f] by (auto simp: PrintPut_in_main InitChan_in_main)
  show "length (printPut f marshal fmt_v c) = length c"
    by (simp add: printPut_def)
  show "\<forall>i<length c.
      printPut f marshal fmt_v c ! i =
        (if flagJSON f then fst (marshal (c ! i))
         else Metric (c ! i) @ '' '' @ fmt_int (Timestamp (c ! i)) @ '' '' @
              fmt_v (Value (c ! i)) @
              concat (map (\<lambda>kv. '' '' @ fst kv @ ''='' @ snd kv) (Tags (c ! i))))"
    by (simp add: printPut_def Telnet_def)
qed

theorem printPut_records_witness:
  "main example_world (example_flags\<lparr>flagPrint := True\<rparr>) =
     [Slog_Set_stdout, Init ''c_cpu'' (Some (Err ''no counters'')), Init ''c_mem'' None,
      Metadata_Init, Set_DefaultFreq 3000000000, Infoln [''Set default frequency to'', ''3s''],
      Collectors_Run
        [\<lparr>Collector_name = ''c_cpu'', Collector_init = Some (Err ''no counters'')\<rparr>,
         \<lparr>Collector_name = ''c_mem'', Collector_init = None\<rparr>],
      Infoln [''Outputting to screen''], PrintPut] \<and>
   printPut (example_flags\<lparr>flagPrint := True\<rparr>) (\<lambda>dp. (''{}'', None)) (\<lambda>v. ''5'')
       [example_point, example_point] =
     [''test.metric 1400000000 5 host=a'', ''test.metric 1400000000 5 host=a''] \<and>
   printPut (example_flags\<lparr>flagJSON := True\<rparr>) (\<lambda>dp. (''{}'', None)) (\<lambda>v. ''5'')
       [example_point] = [''{}'']"
proof -
  have fmt: "fmt_int 1400000000 = ''1400000000''"
    by (simp add: fmt_int_def fmt_nat.simps)
  have trace: "main example_world (example_flags\<lparr>flagPrint := True\<rparr>) =
     [Slog_Set_stdout, Init ''c_cpu'' (Some (Err ''no counters'')), Init ''c_mem'' None,
      Metadata_Init, Set_DefaultFreq 3000000000, Infoln [''Set default frequency to'', ''3s''],
      Collectors_Run
        [\<lparr>Collector_name = ''c_cpu'', Collector_init = Some (Err ''no counters'')\<rparr>,
         \<lparr>Collector_name = ''c_mem'', Collector_init = None\<rparr>],
      Infoln [''Outputting to screen''], PrintPut]"
    by (simp add: example_defs time_Second_def time_Millisecond_def)
  have records: "printPut (example_flags\<lparr>flagPrint := True\<rparr>) (\<lambda>dp. (''{}'', None)) (\<lambda>v. ''5'')
       [example_point, example_point] =
     [''test.metric 1400000000 5 host=a'', ''test.metric 1400000000 5 host=a'']"
    "printPut (example_flags\<lparr>flagJSON := True\<rparr>) (\<lambda>dp. (''{}'', None)) (\<lambda>v. ''5'')
       [example_point] = [''{}'']"
    by (simp_all add: printPut_def Telnet_def example_point_def example_flags_def fmt)
  show ?thesis
    using printPut_records [where w = example_world
        and f = "example_flags\<lparr>flagPrint := True\<rparr>" and marshal = "\<lambda>dp. (''{}'', None)"
        and fmt_v = "\<lambda>v. ''5''" and c = "[example_point, example_point]"]
      trace records
    by simp
qed

section \<open>Derived memory metrics of a vSphere host\<close>

lemma sint_MB_exact:
  fixes u :: int64
  assumes "- (2 ^ 43) < sint u" and "sint u < 2 ^ 43"
  shows "sint (u * 1024 * 1024) = sint u * 1048576"
proof -
  have "u * 1024 * 1024 = u * 1048576"
    by simp
  then have "sint (u * 1024 * 1024) = signed_take_bit 63 (sint u * 1048576)"
    by (simp add: sint_word_ariths mult.commute)
  moreover have "- (2 ^ 63) \<le> sint u * 1048576" and "sint u * 1048576 < 2 ^ 63"
    using assms by simp_all
  ultimately show ?thesis
    by (simp add: signed_take_bit_int_eq_self)
qed

lemma sint_diff_positive:
  fixes a b :: int64
  assumes "0 <s a" and "0 <s b"
  shows "sint (a - b) = sint a - sint b"
proof -
  have a: "0 < sint a" and b: "0 < sint b"
    using assms by (simp_all add: word_sless_alt)
  have "sint a < 2 ^ 63" and "sint b < 2 ^ 63"
    using sint_lt [of a] sint_lt [of b] by simp_all
  with a b have "- (2 ^ 63) \<le> sint a - sint b" and "sint a - sint b < 2 ^ 63"
    by simp_all
  then show ?thesis
    by (simp add: sint_word_ariths signed_take_bit_int_eq_self)
qed

lemma MB_positive_iff:
  fixes u :: int64
  assumes "- (2 ^ 43) < sint u" and "sint u < 2 ^ 43"
  shows "0 <s u * 1024 * 1024 \<longleftrightarrow> 0 <s u"
  using sint_MB_exact [OF assms] by (simp add: word_sless_alt)


lemma memTotal_loop:
  "memTotal (foldl (vsphereHost_prop e k n tags) s ps) =
     reading_from (memTotal s) ''summary.hardware.memorySize'' ps"
proof (induction ps arbitrary: s)
  case Nil
  then show ?case by (simp add: reading_from_def)
next
  case (Cons p ps)
  have "memTotal (vsphereHost_prop e k n tags s p) =
      (if Name p = ''summary.hardware.memorySize''
       then (case integer_value p of None \<Rightarrow> memTotal s | Some j \<Rightarrow> j) else memTotal s)"
    by (simp add: vsphereHost_prop_def integer_value_def split: option.split)
  with Cons.IH [of "vsphereHost_prop e k n tags s p"] show ?case
    by (simp add: reading_from_def)
qed

lemma memUsed_loop:
  "memUsed s = u * 1024 * 1024 \<Longrightarrow>
   memUsed (foldl (vsphereHost_prop e k n tags) s ps) =
     reading_from u ''summary.quickStats.overallMemoryUsage'' ps * 1024 * 1024"
proof (induction ps arbitrary: s u)
  case Nil
  then show ?case by (simp add: reading_from_def)
next
  case (Cons p ps)
  let ?u = "if Name p = ''summary.quickStats.overallMemoryUsage''
       then (case integer_value p of None \<Rightarrow> u | Some j \<Rightarrow> j) else u"
  have "memUsed (vsphereHost_prop e k n tags s p) = ?u * 1024 * 1024"
    using Cons.prems
    by (simp add: vsphereHost_prop_def integer_value_def split: option.split)
  from Cons.IH [OF this] show ?case
    by (simp add: reading_from_def)
qed

lemma host_loop_points:
  assumes "distinct (map fst tags)"
  shows "\<exists>pts. h_md (foldl (vsphereHost_prop e k n tags) s ps) = h_md s @ pts \<and>
           (\<forall>p\<in>set pts. Metric p \<in> {osMemTotal k, osMemUsed k, ''vsphere.cpu''})"
proof (induction ps arbitrary: s)
  case Nil
  then show ?case by simp
next
  case (Cons p ps)
  have step: "\<exists>pts. h_md (vsphereHost_prop e k n tags s p) = h_md s @ pts \<and>
           (\<forall>p\<in>set pts. Metric p \<in> {osMemTotal k, osMemUsed k, ''vsphere.cpu''})"
    using assms
    by (simp add: vsphereHost_prop_def Add_appends split: option.split)
  then obtain pts1 where 1: "h_md (vsphereHost_prop e k n tags s p) = h_md s @ pts1"
    and m1: "\<forall>p\<in>set pts1. Metric p \<in> {osMemTotal k, osMemUsed k, ''vsphere.cpu''}"
    by blast
  from Cons.IH [of "vsphereHost_prop e k n tags s p"]
  obtain pts2 where 2: "h_md (foldl (vsphereHost_prop e k n tags)
        (vsphereHost_prop e k n tags s p) ps) = h_md (vsphereHost_prop e k n tags s p) @ pts2"
    and m2: "\<forall>p\<in>set pts2. Metric p \<in> {osMemTotal k, osMemUsed k, ''vsphere.cpu''}"
    by blast
  have "h_md (foldl (vsphereHost_prop e k n tags) s (p # ps)) = h_md s @ (pts1 @ pts2)"
    using 1 2 by simp
  moreover have "\<forall>p\<in>set (pts1 @ pts2). Metric p \<in> {osMemTotal k, osMemUsed k, ''vsphere.cpu''}"
    using m1 m2 by auto
  ultimately show ?case by blast
qed

lemma host_cpu_points:
  "\<exists>pts. host_cpu_derived e n [(''host'', n)] s md = md @ pts \<and>
         (\<forall>p\<in>set pts. Metric p \<in> {''vsphere.cpu'', ''vsphere.cpu.pct''})"
  by (simp add: host_cpu_derived_def Add_appends Let_def)


text \<open>
  Claim C10, as the code has it. Take a host record, its cleaned name \<open>n\<close>, and its
  readings \<open>M\<close> of \<^verbatim>\<open>summary.hardware.memorySize\<close> and \<open>U\<close> of
  \<^verbatim>\<open>summary.quickStats.overallMemoryUsage\<close>, with \<open>U\<close> strictly between
  \<open>- 2 ^ 43\<close> and \<open>2 ^ 43\<close> megabytes, so that its conversion to bytes fits an
  \<^verbatim>\<open>int64\<close>. A record with an empty name adds no point at all and sets the error
  \<^verbatim>\<open>vsphere: empty name\<close>. A record with a name adds a point of metric
  \<^verbatim>\<open>osMemFree\<close> if and only if \<open>M\<close> and \<open>U\<close> are both positive, and a point of
  metric \<^verbatim>\<open>osMemPctFree\<close> under the very same condition. The value of the first is then
  exactly \<open>M - U * 1024 * 1024\<close>; the second follows it at once, and its value is that
  difference divided by \<open>M\<close>, times 100, in \<^verbatim>\<open>float64\<close>.
\<close>

theorem vsphereHost_record_memory_free:
  assumes M: "M = reading ''summary.hardware.memorySize'' (Props r)"
    and U: "U = reading ''summary.quickStats.overallMemoryUsage'' (Props r)"
    and n: "n = record_name clean (Props r)"
    and range: "- (2 ^ 43) < sint U" "sint U < 2 ^ 43"
    and names: "osMemFree k \<notin> {osMemTotal k, osMemUsed k, osMemPctFree k, ''vsphere.cpu'',
                                  ''vsphere.cpu.pct''}"
      "osMemPctFree k \<notin> {osMemTotal k, osMemUsed k, ''vsphere.cpu'', ''vsphere.cpu.pct''}"
  shows "\<exists>new. fst (vsphereHost_record e k clean (md, err) r) = md @ new \<and>
           (n = [] \<longrightarrow>
              new = [] \<and>
              snd (vsphereHost_record e k clean (md, err) r) = Some (Err ''vsphere: empty name'')) \<and>
           (n \<noteq> [] \<longrightarrow>
              ((\<exists>p\<in>set new. Metric p = osMemFree k) \<longleftrightarrow> 0 <s M \<and> 0 <s U) \<and>
              ((\<exists>p\<in>set new. Metric p = osMemPctFree k) \<longleftrightarrow> 0 <s M \<and> 0 <s U) \<and>
              (0 <s M \<and> 0 <s U \<longrightarrow>
                 sint (M - U * 1024 * 1024) = sint M - sint U * 1048576 \<and>
                 (\<exists>before after.
                    new = before @
                      [\<lparr>Metric = osMemFree k, Timestamp = Now e,
                         Value = V_int64 (M - U * 1024 * 1024),
                         Tags = merge_tags e [(''host'', n)]\<rparr>,
                       \<lparr>Metric = osMemPctFree k, Timestamp = Now e,
                         Value = V_float64
                           (F64_mul (F64_div (F64_of_int (sint M - sint U * 1048576))
                                             (F64_of_int (sint M)))
                                    (F64_of_int 100)),
                         Tags = merge_tags e [(''host'', n)]\<rparr>] @ after \<and>
                    (\<forall>p\<in>set before \<union> set after.
                       Metric p \<noteq> osMemFree k \<and> Metric p \<noteq> osMemPctFree k))))"
proof (cases "n = []")
  case True
  then have "fst (vsphereHost_record e k clean (md, err) r) = md @ []"
    and "snd (vsphereHost_record e k clean (md, err) r) = Some (Err ''vsphere: empty name'')"
    using n by (simp_all add: vsphereHost_record_def)
  with True show ?thesis by blast
next
  case False
  define s0 where "s0 = \<lparr>h_md = md, h_Error = err, memTotal = 0, memUsed = 0, cpuMhz = 0,
      cpuCores = 0, cpuUse = 0\<rparr>"
  define s where "s = foldl (vsphereHost_prop e k n [(''host'', n)]) s0 (Props r)"
  have total: "memTotal s = M"
    using memTotal_loop [of e k n "[(''host'', n)]" s0 "Props r"]
    by (simp add: s_def s0_def M reading_def)
  have used: "memUsed s = U * 1024 * 1024"
    using memUsed_loop [of s0 0 e k n "[(''host'', n)]" "Props r"]
    by (simp add: s_def s0_def U reading_def)
  obtain loop where loop: "h_md s = md @ loop"
    and loop_names: "\<forall>p\<in>set loop. Metric p \<in> {osMemTotal k, osMemUsed k, ''vsphere.cpu''}"
    using host_loop_points [of "[(''host'', n)]" e k n s0 "Props r"]
    by (auto simp: s_def s0_def)
  let ?mem = "host_mem_derived e k [(''host'', n)] s (h_md s)"
  obtain cpu where cpu: "host_cpu_derived e n [(''host'', n)] s ?mem = ?mem @ cpu"
    and cpu_names: "\<forall>p\<in>set cpu. Metric p \<in> {''vsphere.cpu'', ''vsphere.cpu.pct''}"
    using host_cpu_points [of e n s ?mem] by blast
  have result: "fst (vsphereHost_record e k clean (md, err) r) = ?mem @ cpu"
    using False n cpu by (simp add: vsphereHost_record_def Let_def s_def s0_def)
  have guard: "0 <s memUsed s \<longleftrightarrow> 0 <s U"
    using MB_positive_iff [OF range] by (simp add: used)
  have outside: "\<forall>p\<in>set loop \<union> set cpu.
      Metric p \<noteq> osMemFree k \<and> Metric p \<noteq> osMemPctFree k"
    using loop_names cpu_names names by auto
  show ?thesis
  proof (cases "0 <s M \<and> 0 <s U")
    case True
    then have pos: "0 <s M" "0 <s U * 1024 * 1024"
      using guard used by simp_all
    have exact: "sint (M - U * 1024 * 1024) = sint M - sint U * 1048576"
      using sint_diff_positive [OF pos] sint_MB_exact [OF range] by simp
    let ?free = "\<lparr>Metric = osMemFree k, Timestamp = Now e,
        Value = V_int64 (M - U * 1024 * 1024), Tags = merge_tags e [(''host'', n)]\<rparr>"
    let ?pct = "\<lparr>Metric = osMemPctFree k, Timestamp = Now e,
        Value = V_float64 (F64_mul (F64_div (F64_of_int (sint M - sint U * 1048576))
                                            (F64_of_int (sint M))) (F64_of_int 100)),
        Tags = merge_tags e [(''host'', n)]\<rparr>"
    have exact': "sint (M - 1048576 * U) = sint M - sint U * 1048576"
      using exact by (simp add: mult.commute)
    have mem: "?mem = md @ loop @ [?free, ?pct]"
      using True guard
      by (simp add: host_mem_derived_def Let_def total used loop Add_appends exact')
    have new: "fst (vsphereHost_record e k clean (md, err) r) = md @ (loop @ [?free, ?pct] @ cpu)"
      using result mem by simp
    have "\<exists>p\<in>set (loop @ [?free, ?pct] @ cpu). Metric p = osMemFree k"
      and "\<exists>p\<in>set (loop @ [?free, ?pct] @ cpu). Metric p = osMemPctFree k"
      by simp_all
    with new True False exact outside show ?thesis
      by blast
  next
    case False
    then have mem: "?mem = md @ loop"
      using guard by (auto simp: host_mem_derived_def total used loop)
    have new: "fst (vsphereHost_record e k clean (md, err) r) = md @ (loop @ cpu)"
      using result mem by simp
    have "\<not> (\<exists>p\<in>set (loop @ cpu). Metric p = osMemFree k)"
      and "\<not> (\<exists>p\<in>set (loop @ cpu). Metric p = osMemPctFree k)"
      using outside by auto
    with new False \<open>n \<noteq> []\<close> show ?thesis
      by blast
  qed
qed


theorem vsphereHost_record_memory_free_witness:
  "record_name (\<lambda>s. s) (Props example_host) = ''esx1'' \<and>
   reading ''summary.hardware.memorySize'' (Props example_host) = 8589934592 \<and>
   reading ''summary.quickStats.overallMemoryUsage'' (Props example_host) = 1024 \<and>
   fst (vsphereHost_record example_env example_names (\<lambda>s. s) ([], None) example_host) =
     [\<lparr>Metric = ''os.mem.total'', Timestamp = 1400000000, Value = V_int64 8589934592,
        Tags = [(''host'', ''esx1'')]\<rparr>,
      \<lparr>Metric = ''os.mem.used'', Timestamp = 1400000000, Value = V_int64 1073741824,
        Tags = [(''host'', ''esx1'')]\<rparr>,
      \<lparr>Metric = ''os.mem.free'', Timestamp = 1400000000, Value = V_int64 7516192768,
        Tags = [(''host'', ''esx1'')]\<rparr>,
      \<lparr>Metric = ''os.mem.percent_free'', Timestamp = 1400000000,
        Value = V_float64 (F64_mul (F64_div (F64_of_int 7516192768) (F64_of_int 8589934592))
                                   (F64_of_int 100)),
        Tags = [(''host'', ''esx1'')]\<rparr>]"
proof -
  have eval: "record_name (\<lambda>s. s) (Props example_host) = ''esx1''"
    "reading ''summary.hardware.memorySize'' (Props example_host) = 8589934592"
    "reading ''summary.quickStats.overallMemoryUsage'' (Props example_host) = 1024"
    "fst (vsphereHost_record example_env example_names (\<lambda>s. s) ([], None) example_host) =
     [\<lparr>Metric = ''os.mem.total'', Timestamp = 1400000000, Value = V_int64 8589934592,
        Tags = [(''host'', ''esx1'')]\<rparr>,
      \<lparr>Metric = ''os.mem.used'', Timestamp = 1400000000, Value = V_int64 1073741824,
        Tags = [(''host'', ''esx1'')]\<rparr>,
      \<lparr>Metric = ''os.mem.free'', Timestamp = 1400000000, Value = V_int64 7516192768,
        Tags = [(''host'', ''esx1'')]\<rparr>,
      \<lparr>Metric = ''os.mem.percent_free'', Timestamp = 1400000000,
        Value = V_float64 (F64_mul (F64_div (F64_of_int 7516192768) (F64_of_int 8589934592))
                                   (F64_of_int 100)),
        Tags = [(''host'', ''esx1'')]\<rparr>]"
    by (simp_all add: host_eval example_host_def word_sless_alt)
  show ?thesis
    using vsphereHost_record_memory_free
      [of 8589934592 example_host 1024 "''esx1''" "\<lambda>s. s" example_names example_env "[]" None]
      eval
    by (simp add: example_names_def)
qed

text \<open>
  Against claim C10 as stated: a record without a name, and a record whose memory usage
  is \<open>2 ^ 43\<close> megabytes (the product wraps to \<open>- 2 ^ 63\<close>), both have a positive
  memory size and a positive memory usage, and neither gets a free-memory point.
\<close>

theorem vsphereHost_record_memory_free_counterexample:
  "0 <s reading ''summary.hardware.memorySize'' (Props nameless_host) \<and>
   0 <s reading ''summary.quickStats.overallMemoryUsage'' (Props nameless_host) \<and>
   vsphereHost_record example_env example_names (\<lambda>s. s) ([], None) nameless_host =
     ([], Some (Err ''vsphere: empty name'')) \<and>
   0 <s reading ''summary.hardware.memorySize'' (Props huge_usage_host) \<and>
   0 <s reading ''summary.quickStats.overallMemoryUsage'' (Props huge_usage_host) \<and>
   vsphereHost_record example_env example_names (\<lambda>s. s) ([], None) huge_usage_host =
     ([\<lparr>Metric = ''os.mem.total'', Timestamp = 1400000000, Value = V_int64 8589934592,
         Tags = [(''host'', ''esx3'')]\<rparr>,
       \<lparr>Metric = ''os.mem.used'', Timestamp = 1400000000,
         Value = V_int64 (- 9223372036854775808), Tags = [(''host'', ''esx3'')]\<rparr>],
      None)"
  by (simp add: host_eval nameless_host_def huge_usage_host_def word_sless_alt)

end
